theory Spec2Isabelle
  imports Main "HOL-Library.Word" "HOL-Library.Multiset" "HOL-Library.Signed_Division"
begin

section \<open>Time, identifiers and errors\<close>

text \<open>
  A \<open>time.Time\<close> is modelled by the number of nanoseconds that separate it from Go's zero
  time (January 1, year 1, 00:00:00 UTC), so that \<open>IsZero\<close> is the test against \<open>0\<close>,
  \<open>Before\<close>, \<open>After\<close> and \<open>Equal\<close> are \<open><\<close>, \<open>></\<close> and \<open>=\<close> on instants, and \<open>Add\<close> is
  addition. A \<open>time.Duration\<close> is a number of nanoseconds. Both are unbounded integers
  here: the arithmetic of the modelled functions stays far from the limits of Go's
  representation. Identifiers are \<open>uint64\<close>, hence 64-bit words.
\<close>

type_synonym time = int
type_synonym duration = int
type_synonym uint64 = "64 word"

definition IsZero :: "time \<Rightarrow> bool" where
  "IsZero t = (t = 0)"

text \<open>
  \<open>time.Unix(0, ns)\<close>: the zero time lies 62135596800 seconds before the Unix epoch.
\<close>

definition unixToInternal :: int where
  "unixToInternal = 62135596800 * 1000000000"

definition Unix0 :: "int \<Rightarrow> time" where
  "Unix0 ns = unixToInternal + ns"

text \<open>
  \<open>t.Truncate(d)\<close> rounds \<open>t\<close> down to a multiple of \<open>d\<close> counted from the zero time, and
  returns \<open>t\<close> unchanged when \<open>d \<le> 0\<close>.
\<close>

definition Truncate :: "time \<Rightarrow> duration \<Rightarrow> time" where
  "Truncate t d = (if d \<le> 0 then t else t - t mod d)"

text \<open>
  Error values. The constructors are the package-level error variables and the error
  constructors that the modelled functions mention; \<open>ErrorsNew\<close> stands for a value
  built by \<open>errors.New\<close> or \<open>fmt.Errorf\<close> with the given message, \<open>External\<close> for any other
  error handed over by a collaborator, \<open>Panic\<close> for a run-time panic, which is not an
  error value in Go but ends the call all the same. A Go \<open>nil\<close> error is \<open>None\<close>.
\<close>

datatype error =
    ErrNodeNotFound
  | ErrDatabaseNotFound string
  | ErrRetentionPolicyNotFound string
  | ErrTimeout
  | ErrPartialWrite
  | ErrWriteFailed
  | ErrShardNotFound
  | ErrShardDeletion
  | ErrHintedHandoffQueueNotEmpty
  | ErrQueueBlocked
  | PartialWriteError string int
  | ErrorsNew string
  | External string
  | Panic string

section \<open>Lease table\<close>

record Lease =
  Name :: string
  Expiration :: time
  Owner :: uint64

text \<open>
  \<open>Leases\<close>: the map \<open>m\<close> and the lifetime \<open>d\<close> of the source (the mutex is not modelled:
  \<open>Acquire\<close> runs under it from start to end).
\<close>

record Leases =
  Leases_m :: "string \<rightharpoonup> Lease"
  Leases_d :: duration

text \<open>
  \<open>Leases.Acquire\<close>. The argument \<open>now\<close> gives the successive readings of \<open>time.Now()\<close>
  during the call: \<open>now 0\<close> is the first reading, \<open>now 1\<close> the second. The result is the
  returned lease, the returned error and the table after the call.
\<close>

definition Acquire :: "(nat \<Rightarrow> time) \<Rightarrow> Leases \<Rightarrow> string \<Rightarrow> uint64 \<Rightarrow> (Lease \<times> error option) \<times> Leases" where
  "Acquire now leases name nodeID =
     (case Leases_m leases name of
        Some l \<Rightarrow>
          if now 0 > Expiration l \<or> Owner l = nodeID then
            (let l' = l\<lparr>Expiration := now 1 + Leases_d leases, Owner := nodeID\<rparr>
             in ((l', None), leases\<lparr>Leases_m := (Leases_m leases)(name \<mapsto> l')\<rparr>))
          else ((l, Some (ErrorsNew ''another node has the lease'')), leases)
      | None \<Rightarrow>
          (let l = \<lparr>Name = name, Expiration = now 0 + Leases_d leases, Owner = nodeID\<rparr>
           in ((l, None), leases\<lparr>Leases_m := (Leases_m leases)(name \<mapsto> l)\<rparr>)))"

section \<open>Metadata records\<close>

record NodeInfo =
  ID :: uint64
  Addr :: string
  TCPAddr :: string

record ShardOwner =
  NodeID :: uint64

record ShardInfo =
  ID :: uint64
  Owners :: "ShardOwner list"

record ShardGroupInfo =
  ID :: uint64
  StartTime :: time
  EndTime :: time
  DeletedAt :: time
  Shards :: "ShardInfo list"
  TruncatedAt :: time

record SubscriptionInfo =
  Name :: string
  Mode :: string
  Destinations :: "string list"

record RetentionPolicyInfo =
  Name :: string
  ReplicaN :: int
  Duration :: duration
  ShardGroupDuration :: duration
  ShardGroups :: "ShardGroupInfo list"
  Subscriptions :: "SubscriptionInfo list"

record ContinuousQueryInfo =
  Name :: string
  Query :: string

record DatabaseInfo =
  Name :: string
  DefaultRetentionPolicy :: string
  RetentionPolicies :: "RetentionPolicyInfo list"
  ContinuousQueries :: "ContinuousQueryInfo list"

record UserInfo =
  Name :: string
  Hash :: string
  Admin :: bool
  Privileges :: "string \<rightharpoonup> int"

record Data =
  Term :: uint64
  Index :: uint64
  ClusterID :: uint64
  MetaNodes :: "NodeInfo list"
  DataNodes :: "NodeInfo list"
  Databases :: "DatabaseInfo list"
  Users :: "UserInfo list"
  adminUserExists :: bool
  MaxNodeID :: uint64
  MaxShardGroupID :: uint64
  MaxShardID :: uint64

subsection \<open>Shard group predicates\<close>

definition Contains :: "ShardGroupInfo \<Rightarrow> time \<Rightarrow> bool" where
  "Contains sgi t = (\<not> t < StartTime sgi \<and> t < EndTime sgi)"

definition Deleted :: "ShardGroupInfo \<Rightarrow> bool" where
  "Deleted sgi = (\<not> IsZero (DeletedAt sgi))"

definition Truncated :: "ShardGroupInfo \<Rightarrow> bool" where
  "Truncated sgi = (\<not> IsZero (TruncatedAt sgi))"

section \<open>Dropping a shard\<close>

text \<open>
  The loops of \<open>DropShard\<close>, \<open>CopyShardOwner\<close> and \<open>RemoveShardOwner\<close> walk the databases,
  their retention policies and their shard groups in order, act on the first element
  where something is found and return. \<open>updateFirst f xs\<close> is that walk over one level:
  \<open>f x = None\<close> means nothing was found in \<open>x\<close>; the first \<open>x\<close> with \<open>f x = Some x'\<close> is
  replaced by \<open>x'\<close> and the walk stops. The result is \<open>None\<close> when nothing was found.
\<close>

fun updateFirst :: "('a \<Rightarrow> 'a option) \<Rightarrow> 'a list \<Rightarrow> 'a list option" where
  "updateFirst f [] = None"
| "updateFirst f (x # xs) =
     (case f x of
        Some x' \<Rightarrow> Some (x' # xs)
      | None \<Rightarrow> map_option ((#) x) (updateFirst f xs))"

text \<open>The inner search loop: the index of the first shard of the group with the given ID.\<close>

fun findShard :: "uint64 \<Rightarrow> ShardInfo list \<Rightarrow> nat option" where
  "findShard sid [] = None"
| "findShard sid (s # ss) =
     (if ShardInfo.ID s = sid then Some 0 else map_option Suc (findShard sid ss))"

text \<open>
  \<open>append(shards[:found], shards[found+1:]...)\<close>: the list without its element at
  index \<open>found\<close>.
\<close>

definition removeAt :: "nat \<Rightarrow> 'a list \<Rightarrow> 'a list" where
  "removeAt found xs = take found xs @ drop (Suc found) xs"

text \<open>
  What \<open>DropShard\<close> does to one shard group: nothing is found (\<open>None\<close>), or the shard is
  taken out and, when it was the only one, the group is marked as deleted at the
  reading \<open>now\<close> of the clock.
\<close>

definition dropShardGroup :: "time \<Rightarrow> uint64 \<Rightarrow> ShardGroupInfo \<Rightarrow> ShardGroupInfo option" where
  "dropShardGroup now sid sg =
     (case findShard sid (Shards sg) of
        None \<Rightarrow> None
      | Some found \<Rightarrow>
          (let shards = Shards sg;
               sg' = sg\<lparr>Shards := removeAt found shards\<rparr>
           in Some (if length shards = 1 then sg'\<lparr>DeletedAt := now\<rparr> else sg')))"

definition inPolicy :: "(ShardGroupInfo \<Rightarrow> ShardGroupInfo option) \<Rightarrow> RetentionPolicyInfo \<Rightarrow> RetentionPolicyInfo option" where
  "inPolicy f rpi = map_option (\<lambda>sgs. rpi\<lparr>ShardGroups := sgs\<rparr>) (updateFirst f (ShardGroups rpi))"

definition inDatabase :: "(ShardGroupInfo \<Rightarrow> ShardGroupInfo option) \<Rightarrow> DatabaseInfo \<Rightarrow> DatabaseInfo option" where
  "inDatabase f dbi =
     map_option (\<lambda>rps. dbi\<lparr>RetentionPolicies := rps\<rparr>) (updateFirst (inPolicy f) (RetentionPolicies dbi))"

definition DropShard :: "time \<Rightarrow> Data \<Rightarrow> uint64 \<Rightarrow> Data" where
  "DropShard now data sid =
     (case updateFirst (inDatabase (dropShardGroup now sid)) (Databases data) of
        None \<Rightarrow> data
      | Some dbs \<Rightarrow> data\<lparr>Databases := dbs\<rparr>)"

text \<open>The shard groups of the whole store, in the order in which the loops visit them.\<close>

definition allShardGroups :: "Data \<Rightarrow> ShardGroupInfo list" where
  "allShardGroups data =
     concat (map (\<lambda>dbi. concat (map ShardGroups (RetentionPolicies dbi))) (Databases data))"

definition holdsShard :: "uint64 \<Rightarrow> ShardGroupInfo \<Rightarrow> bool" where
  "holdsShard sid sg = (findShard sid (Shards sg) \<noteq> None)"

section \<open>Creating a shard group\<close>

text \<open>\<open>Data.Database\<close> and \<open>Data.RetentionPolicy\<close>: the first entry with the name.\<close>

definition Database :: "Data \<Rightarrow> string \<Rightarrow> DatabaseInfo option" where
  "Database data name = find (\<lambda>di. DatabaseInfo.Name di = name) (Databases data)"

definition RetentionPolicy :: "Data \<Rightarrow> string \<Rightarrow> string \<Rightarrow> error + RetentionPolicyInfo option" where
  "RetentionPolicy data database name =
     (case Database data database of
        None \<Rightarrow> Inl (ErrDatabaseNotFound database)
      | Some di \<Rightarrow> Inr (find (\<lambda>rpi. RetentionPolicyInfo.Name rpi = name) (RetentionPolicies di)))"

text \<open>
  \<open>RetentionPolicy\<close> returns a pointer into the store, through which \<open>CreateShardGroup\<close>
  writes. \<open>setPolicy database name f data\<close> is that write: \<open>f\<close> applied to the policy
  that the lookup finds.
\<close>

fun setFirst :: "('a \<Rightarrow> bool) \<Rightarrow> ('a \<Rightarrow> 'a) \<Rightarrow> 'a list \<Rightarrow> 'a list" where
  "setFirst P f [] = []"
| "setFirst P f (x # xs) = (if P x then f x # xs else x # setFirst P f xs)"

definition setPolicy :: "string \<Rightarrow> string \<Rightarrow> (RetentionPolicyInfo \<Rightarrow> RetentionPolicyInfo) \<Rightarrow> Data \<Rightarrow> Data" where
  "setPolicy database name f data =
     data\<lparr>Databases :=
       setFirst (\<lambda>di. DatabaseInfo.Name di = database)
         (\<lambda>di. di\<lparr>RetentionPolicies :=
            setFirst (\<lambda>rpi. RetentionPolicyInfo.Name rpi = name) f (RetentionPolicies di)\<rparr>)
         (Databases data)\<rparr>"

definition ShardGroupByTimestamp :: "RetentionPolicyInfo \<Rightarrow> time \<Rightarrow> ShardGroupInfo option" where
  "ShardGroupByTimestamp rpi timestamp =
     find (\<lambda>sgi. Contains sgi timestamp \<and> \<not> Deleted sgi \<and>
                 (\<not> Truncated sgi \<or> timestamp < TruncatedAt sgi))
       (ShardGroups rpi)"

text \<open>\<open>ShardGroupInfos.Less\<close>, on the two elements that it compares.\<close>

definition ShardGroupInfos_Less :: "ShardGroupInfo \<Rightarrow> ShardGroupInfo \<Rightarrow> bool" where
  "ShardGroupInfos_Less a b =
     (let iEnd = (if Truncated a then TruncatedAt a else EndTime a);
          jEnd = (if Truncated b then TruncatedAt b else EndTime b)
      in if iEnd = jEnd then StartTime a < StartTime b else iEnd < jEnd)"

text \<open>
  The replication factor in use: \<open>replicaN\<close> is an \<open>int\<close> of the policy; zero becomes one
  and a value above the number of data nodes becomes that number.
\<close>

definition clampReplicaN :: "int \<Rightarrow> int \<Rightarrow> int" where
  "clampReplicaN replicaN n = (if replicaN = 0 then 1 else if replicaN > n then n else replicaN)"

text \<open>
  The loop \<open>for shardN*replicaN%len(data.DataNodes) != 0 { shardN++ }\<close>. Go's \<open>%\<close> is the
  remainder of the truncating division, \<open>smod\<close>. The loop is entered with a positive
  number \<open>n\<close> of data nodes only (the function has returned before otherwise, and \<open>%\<close>
  by zero would panic), so the first branch is never taken from \<open>CreateShardGroup\<close>.
  Integers are unbounded here: for a replication factor that is not negative the
  product is at most the square of the number of data nodes.
\<close>

function shardCount :: "int \<Rightarrow> int \<Rightarrow> int \<Rightarrow> int" where
  "shardCount shardN replicaN n =
     (if n \<le> 0 then shardN
      else if (shardN * replicaN) smod n \<noteq> 0 then shardCount (shardN + 1) replicaN n
      else shardN)"
  by pat_completeness auto

lemma smod_eq_0_iff_dvd: "(x::int) smod n = 0 \<longleftrightarrow> n dvd x"
  by (auto simp: signed_modulo_int_def sgn_if mod_eq_0_iff_dvd)

lemma neg_mod_step:
  assumes "0 < (n::int)" "\<not> n dvd s"
  shows "0 < (- s) mod n \<and> (- (s + 1)) mod n < (- s) mod n"
proof -
  have ne: "(- s) mod n \<noteq> 0" using assms(2) by (simp add: mod_eq_0_iff_dvd)
  have ge: "0 \<le> (- s) mod n" using assms(1) by simp
  have lt: "(- s) mod n < n" using assms(1) by simp
  have "(- (s + 1)) mod n = ((- s) mod n - 1) mod n"
    by (simp add: mod_diff_left_eq)
  also have "\<dots> = (- s) mod n - 1"
    using ne ge lt by (intro mod_pos_pos_trivial) auto
  finally show ?thesis using ne ge by simp
qed

termination shardCount
proof (relation "measure (\<lambda>(s, r, n). nat ((- s) mod n))")
  show "wf (measure (\<lambda>(s, r, n). nat ((- s) mod n)))" by simp
next
  fix shardN replicaN n :: int
  assume "\<not> n \<le> 0" and "(shardN * replicaN) smod n \<noteq> 0"
  then have n: "0 < n" and nd: "\<not> n dvd shardN"
    by (auto simp: smod_eq_0_iff_dvd)
  from neg_mod_step [OF n nd] n
  show "((shardN + 1, replicaN, n), (shardN, replicaN, n)) \<in> measure (\<lambda>(s, r, n). nat ((- s) mod n))"
    by simp
qed

declare shardCount.simps [simp del]

text \<open>
  One round of the loop over the existing groups: \<open>(startTime, endTime)\<close> is shrunk
  against the group \<open>sgi\<close>, which is skipped when deleted and ends at \<open>TruncatedAt\<close> when
  truncated.
\<close>

definition shrink :: "time \<Rightarrow> time \<times> time \<Rightarrow> ShardGroupInfo \<Rightarrow> time \<times> time" where
  "shrink timestamp w sgi =
     (if Deleted sgi then w
      else
        (let startTime = fst w; endTime = snd w;
             startI = StartTime sgi;
             endI = (if Truncated sgi then TruncatedAt sgi else EndTime sgi);
             startTime' = (if \<not> timestamp < endI \<and> endI > startTime then endI else startTime);
             endTime' = (if startI > timestamp \<and> startI < endTime then startI else endTime)
         in (startTime', endTime')))"

text \<open>
  The window of the new group. \<open>MaxNanoTime\<close> is the constant \<open>models.MaxNanoTime\<close>,
  which is declared outside the files at hand and is a parameter here.
\<close>

definition window :: "int \<Rightarrow> RetentionPolicyInfo \<Rightarrow> time \<Rightarrow> time \<times> time" where
  "window MaxNanoTime rpi timestamp =
     (let startTime = Truncate timestamp (ShardGroupDuration rpi);
          endTime = startTime + ShardGroupDuration rpi;
          endTime = (if endTime > Unix0 MaxNanoTime then Unix0 (MaxNanoTime + 1) else endTime)
      in foldl (shrink timestamp) (startTime, endTime) (ShardGroups rpi))"

text \<open>
  The shards of the new group: \<open>shardN\<close> shards with the IDs that follow \<open>MaxShardID\<close>,
  then the owners, \<open>replicaN\<close> per shard, taken round robin from the data nodes; \<open>k\<close> is
  the running \<open>nodeIndex\<close>.
\<close>

definition newShards :: "uint64 \<Rightarrow> nat \<Rightarrow> ShardInfo list" where
  "newShards maxShardID shardN =
     map (\<lambda>i. \<lparr>ShardInfo.ID = maxShardID + of_nat (Suc i), Owners = []\<rparr>) [0..<shardN]"

fun assignOwners :: "NodeInfo list \<Rightarrow> nat \<Rightarrow> nat \<Rightarrow> ShardInfo list \<Rightarrow> ShardInfo list" where
  "assignOwners nodes replicaN k [] = []"
| "assignOwners nodes replicaN k (si # sis) =
     si\<lparr>Owners := Owners si @
          map (\<lambda>j. \<lparr>NodeID = NodeInfo.ID (nodes ! ((k + j) mod length nodes))\<rparr>) [0..<replicaN]\<rparr>
     # assignOwners nodes replicaN (k + replicaN) sis"

definition newShardGroup :: "int \<Rightarrow> Data \<Rightarrow> RetentionPolicyInfo \<Rightarrow> time \<Rightarrow> ShardGroupInfo" where
  "newShardGroup MaxNanoTime data rpi timestamp =
     (let n = int (length (DataNodes data));
          replicaN = clampReplicaN (ReplicaN rpi) n;
          shardN = shardCount 1 replicaN n;
          w = window MaxNanoTime rpi timestamp;
          nodeIndex = unat (Index data) mod length (DataNodes data)
      in \<lparr>ShardGroupInfo.ID = MaxShardGroupID data + 1,
          StartTime = fst w, EndTime = snd w, DeletedAt = 0,
          Shards = assignOwners (DataNodes data) (nat replicaN) nodeIndex
                     (newShards (MaxShardID data) (nat shardN)),
          TruncatedAt = 0\<rparr>)"

text \<open>
  \<open>Data.CreateShardGroup\<close>. The final \<open>sort.Sort(ShardGroupInfos(rpi.ShardGroups))\<close> is
  the parameter \<open>srt\<close>: the standard library's sort, which orders by
  \<open>ShardGroupInfos_Less\<close> and makes no promise about elements that compare equal.
\<close>

definition CreateShardGroup ::
  "int \<Rightarrow> (ShardGroupInfo list \<Rightarrow> ShardGroupInfo list) \<Rightarrow> Data \<Rightarrow> string \<Rightarrow> string \<Rightarrow> time
     \<Rightarrow> error option \<times> Data" where
  "CreateShardGroup MaxNanoTime srt data database policy timestamp =
     (if length (DataNodes data) = 0 then (None, data)
      else
        (case RetentionPolicy data database policy of
           Inl err \<Rightarrow> (Some err, data)
         | Inr None \<Rightarrow> (Some (ErrRetentionPolicyNotFound policy), data)
         | Inr (Some rpi) \<Rightarrow>
             if ShardGroupByTimestamp rpi timestamp \<noteq> None then (None, data)
             else
               (let sgi = newShardGroup MaxNanoTime data rpi timestamp;
                    data' = data\<lparr>MaxShardGroupID := MaxShardGroupID data + 1,
                                 MaxShardID := MaxShardID data + of_nat (length (Shards sgi))\<rparr>
                in (None,
                    setPolicy database policy
                      (\<lambda>rpi. rpi\<lparr>ShardGroups := srt (ShardGroups rpi @ [sgi])\<rparr>) data'))))"

text \<open>
  A sort that meets the contract of \<open>sort.Sort\<close>, used to run \<open>CreateShardGroup\<close> and
  the shard mapper on examples: insertion by \<open>ShardGroupInfos_Less\<close>.
\<close>

fun insertGroup :: "ShardGroupInfo \<Rightarrow> ShardGroupInfo list \<Rightarrow> ShardGroupInfo list" where
  "insertGroup g [] = [g]"
| "insertGroup g (h # hs) = (if ShardGroupInfos_Less h g then h # insertGroup g hs else g # h # hs)"

definition insertionSort :: "ShardGroupInfo list \<Rightarrow> ShardGroupInfo list" where
  "insertionSort gs = foldr insertGroup gs []"


text \<open>
  The two readings of "a group contains a point-time". \<open>containing\<close> lists the live
  groups whose interval from \<open>StartTime\<close> to \<open>EndTime\<close> holds the time, as \<open>Contains\<close>
  tests it; \<open>accepting\<close> lists the groups that \<open>ShardGroupByTimestamp\<close> would return for
  the time, for which a truncated group ends at \<open>TruncatedAt\<close>. The invariant says that
  such a list never has two entries.
\<close>

definition containing :: "ShardGroupInfo list \<Rightarrow> time \<Rightarrow> ShardGroupInfo list" where
  "containing sgs t = filter (\<lambda>sgi. \<not> Deleted sgi \<and> Contains sgi t) sgs"

definition accepts :: "ShardGroupInfo \<Rightarrow> time \<Rightarrow> bool" where
  "accepts sgi t =
     (Contains sgi t \<and> \<not> Deleted sgi \<and> (\<not> Truncated sgi \<or> t < TruncatedAt sgi))"

definition accepting :: "ShardGroupInfo list \<Rightarrow> time \<Rightarrow> ShardGroupInfo list" where
  "accepting sgs t = filter (\<lambda>sgi. accepts sgi t) sgs"

definition containedOnce :: "ShardGroupInfo list \<Rightarrow> bool" where
  "containedOnce sgs = (\<forall>t. length (containing sgs t) \<le> 1)"

definition acceptedOnce :: "ShardGroupInfo list \<Rightarrow> bool" where
  "acceptedOnce sgs = (\<forall>t. length (accepting sgs t) \<le> 1)"

text \<open>A policy with one group, truncated at 5.\<close>

definition truncatedGroups :: "ShardGroupInfo list" where
  "truncatedGroups =
     [\<lparr>ShardGroupInfo.ID = 1, StartTime = 0, EndTime = 10, DeletedAt = 0,
        Shards = [\<lparr>ShardInfo.ID = 1, Owners = [\<lparr>NodeID = 1\<rparr>]\<rparr>],
        TruncatedAt = 5\<rparr>]"

text \<open>The end of a group as the loop of \<open>CreateShardGroup\<close> and \<open>Less\<close> take it.\<close>

definition effEnd :: "ShardGroupInfo \<Rightarrow> time" where
  "effEnd g = (if Truncated g then TruncatedAt g else EndTime g)"

text \<open>The value of \<open>models.MaxNanoTime\<close> used in the examples.\<close>

definition exampleMaxNanoTime :: int where
  "exampleMaxNanoTime = 9223372036854775806"

section \<open>Shard mapper\<close>

text \<open>
  A \<open>models.Point\<close>, as far as the mapper looks at it: its key, its time and the hash
  of its key.
\<close>

record Point =
  Key :: string
  Time :: time
  HashID :: uint64

text \<open>
  The fields of \<open>WritePointsRequest\<close> and \<open>ShardMapping\<close> carry a prefix, since their names
  are those of functions and fields of the metadata store.
\<close>

record WritePointsRequest =
  wp_Database :: string
  wp_RetentionPolicy :: string
  wp_Points :: "Point list"

text \<open>
  \<open>ShardMapping\<close>. The two Go maps are association lists with one entry per shard ID;
  \<open>mapUpdate\<close> is the assignment \<open>m[k] = v\<close> and \<open>mapGet\<close> the lookup.
\<close>

fun mapUpdate :: "'k \<Rightarrow> 'v \<Rightarrow> ('k \<times> 'v) list \<Rightarrow> ('k \<times> 'v) list" where
  "mapUpdate k v [] = [(k, v)]"
| "mapUpdate k v ((k', v') # kvs) = (if k' = k then (k, v) # kvs else (k', v') # mapUpdate k v kvs)"

definition mapGet :: "('k \<times> 'v) list \<Rightarrow> 'k \<Rightarrow> 'v option" where
  "mapGet kvs k = map_of kvs k"

record ShardMapping =
  sm_n :: nat
  sm_Points :: "(uint64 \<times> Point list) list"
  sm_Shards :: "(uint64 \<times> ShardInfo) list"
  sm_Dropped :: "Point list"

definition NewShardMapping :: "nat \<Rightarrow> ShardMapping" where
  "NewShardMapping n = \<lparr>sm_n = n, sm_Points = [], sm_Shards = [], sm_Dropped = []\<rparr>"

text \<open>
  \<open>MapPoint\<close>: the slice of the shard is made on its first use (a missing entry has
  capacity zero) and the point is appended to it.
\<close>

definition MapPoint :: "ShardMapping \<Rightarrow> ShardInfo \<Rightarrow> Point \<Rightarrow> ShardMapping" where
  "MapPoint s shardInfo p =
     (let old = (case mapGet (sm_Points s) (ShardInfo.ID shardInfo) of
                   None \<Rightarrow> [] | Some ps \<Rightarrow> ps)
      in s\<lparr>sm_Points := mapUpdate (ShardInfo.ID shardInfo) (old @ [p]) (sm_Points s),
           sm_Shards := mapUpdate (ShardInfo.ID shardInfo) shardInfo (sm_Shards s)\<rparr>)"

text \<open>
  \<open>ShardGroupInfo.ShardFor\<close>. With no shard in the group the remainder by zero panics.
\<close>

definition ShardFor :: "ShardGroupInfo \<Rightarrow> Point \<Rightarrow> ShardInfo option" where
  "ShardFor sgi p =
     (if length (Shards sgi) = 1 then Some (Shards sgi ! 0)
      else if length (Shards sgi) = 0 then None
      else Some (Shards sgi ! (unat (HashID p) mod length (Shards sgi))))"

record WriteStatistics =
  WriteReq :: int
  PointWriteReq :: int
  PointWriteReqLocal :: int
  PointWriteReqRemote :: int
  PointWriteReqHH :: int
  WriteOK :: int
  WritePartial :: int
  WriteDropped :: int
  WriteTimeout :: int
  WriteErr :: int
  SubWriteOK :: int
  SubWriteDrop :: int

subsection \<open>The list of shard groups of a request\<close>

record sgList =
  items :: "ShardGroupInfo list"
  needsSort :: bool
  earliest :: time
  latest :: time

text \<open>
  \<open>sort.Search(n, f)\<close> of the standard library: the binary search between \<open>i\<close> and \<open>j\<close>
  that probes the middle \<open>h\<close> and keeps the upper part when \<open>f h\<close> is false.
\<close>

function searchLoop :: "(nat \<Rightarrow> bool) \<Rightarrow> nat \<Rightarrow> nat \<Rightarrow> nat" where
  "searchLoop f i j =
     (if i < j then
        (let h = (i + j) div 2
         in if \<not> f h then searchLoop f (h + 1) j else searchLoop f i h)
      else i)"
  by pat_completeness auto
termination
  by (relation "measure (\<lambda>(f, i, j). j - i)") auto

declare searchLoop.simps [simp del]

definition Search :: "nat \<Rightarrow> (nat \<Rightarrow> bool) \<Rightarrow> nat" where
  "Search n f = searchLoop f 0 n"

text \<open>
  \<open>sgList.ShardGroupAt\<close>. The receiver is a copy of the list, so the assignment to
  \<open>needsSort\<close> is lost at the return, while \<open>sort.Sort\<close> permutes the array that the
  caller's list shares: the second component of the result is the list as the caller
  finds it afterwards. The first is the group pointed at, or \<open>None\<close> for \<open>nil\<close>. \<open>srt\<close>
  is \<open>sort.Sort\<close> on \<open>ShardGroupInfos\<close>.
\<close>

definition ShardGroupAt ::
  "(ShardGroupInfo list \<Rightarrow> ShardGroupInfo list) \<Rightarrow> sgList \<Rightarrow> time \<Rightarrow> ShardGroupInfo option \<times> sgList" where
  "ShardGroupAt srt l t =
     (if length (items l) = 0 then (None, l)
      else
        (let its = (if needsSort l then srt (items l) else items l);
             l' = l\<lparr>items := its\<rparr>;
             idx = Search (length its) (\<lambda>i. EndTime (its ! i) > t)
         in if idx = length its \<or> t < StartTime (its ! idx) then
              (if t < earliest l \<or> t > latest l then (None, l')
               else (find (\<lambda>sgi. Contains sgi t) its, l'))
            else (Some (its ! idx), l')))"

definition Covers ::
  "(ShardGroupInfo list \<Rightarrow> ShardGroupInfo list) \<Rightarrow> sgList \<Rightarrow> time \<Rightarrow> bool \<times> sgList" where
  "Covers srt l t =
     (if length (items l) = 0 then (False, l)
      else (fst (ShardGroupAt srt l t) \<noteq> None, snd (ShardGroupAt srt l t)))"

definition Add :: "sgList \<Rightarrow> ShardGroupInfo \<Rightarrow> sgList" where
  "Add l sgi =
     l\<lparr>items := items l @ [sgi],
       needsSort := True,
       earliest := (if IsZero (earliest l) \<or> earliest l > StartTime sgi then StartTime sgi
                    else earliest l),
       latest := (if IsZero (latest l) \<or> latest l < EndTime sgi then EndTime sgi else latest l)\<rparr>"

text \<open>
  The search of \<open>ShardGroupAt\<close> as the specification words it, for comparison: the
  smallest index whose effective end (\<open>TruncatedAt\<close> for a truncated group) is after \<open>t\<close>.
\<close>

definition ShardGroupAt_specified ::
  "(ShardGroupInfo list \<Rightarrow> ShardGroupInfo list) \<Rightarrow> sgList \<Rightarrow> time \<Rightarrow> ShardGroupInfo option" where
  "ShardGroupAt_specified srt l t =
     (if length (items l) = 0 then None
      else
        (let its = (if needsSort l then srt (items l) else items l)
         in case find (\<lambda>sgi. effEnd sgi > t) its of
              Some sgi \<Rightarrow>
                if t < StartTime sgi then
                  (if t < earliest l \<or> t > latest l then None
                   else find (\<lambda>sgi. Contains sgi t) its)
                else Some sgi
            | None \<Rightarrow>
                (if t < earliest l \<or> t > latest l then None
                 else find (\<lambda>sgi. Contains sgi t) its)))"

subsection \<open>MapShards\<close>

text \<open>
  The meta client of the points writer is an interface; its three methods that the
  mapper and the writer call are fields of \<open>MetaClient\<close>. \<open>CreateShardGroup\<close> takes the
  number of calls made before in the same request as its first argument, since the
  client may answer the same question differently later.
\<close>

record MetaClient =
  mc_NodeID :: uint64
  mc_Database :: "string \<Rightarrow> DatabaseInfo option"
  mc_RetentionPolicy :: "string \<Rightarrow> string \<Rightarrow> error + RetentionPolicyInfo option"
  mc_CreateShardGroup :: "nat \<Rightarrow> string \<Rightarrow> string \<Rightarrow> time \<Rightarrow> error + ShardGroupInfo option"

text \<open>
  The first loop of \<open>MapShards\<close>: \<open>k\<close> counts the calls of \<open>CreateShardGroup\<close>, \<open>tmin\<close> (the \<open>min\<close> of the source) is
  the oldest time that the policy keeps.
\<close>

fun createLoop ::
  "(ShardGroupInfo list \<Rightarrow> ShardGroupInfo list) \<Rightarrow> MetaClient \<Rightarrow> string \<Rightarrow> string \<Rightarrow> time \<Rightarrow>
     nat \<Rightarrow> sgList \<Rightarrow> Point list \<Rightarrow> error + sgList" where
  "createLoop srt mc db rp tmin k l [] = Inr l"
| "createLoop srt mc db rp tmin k l (p # ps) =
     (if Time p < tmin then createLoop srt mc db rp tmin k l ps
      else if fst (Covers srt l (Time p)) then createLoop srt mc db rp tmin k (snd (Covers srt l (Time p))) ps
      else
        (case mc_CreateShardGroup mc k db rp (Time p) of
           Inl err \<Rightarrow> Inl err
         | Inr None \<Rightarrow> Inl (ErrorsNew ''nil shard group'')
         | Inr (Some sg) \<Rightarrow>
             createLoop srt mc db rp tmin (Suc k) (Add (snd (Covers srt l (Time p))) sg) ps))"

text \<open>The second loop: every point is dropped and counted, or mapped to a shard.\<close>

fun mapLoop ::
  "(ShardGroupInfo list \<Rightarrow> ShardGroupInfo list) \<Rightarrow> sgList \<Rightarrow> ShardMapping \<Rightarrow> WriteStatistics \<Rightarrow>
     Point list \<Rightarrow> error + (ShardMapping \<times> WriteStatistics)" where
  "mapLoop srt l mapping stats [] = Inr (mapping, stats)"
| "mapLoop srt l mapping stats (p # ps) =
     (case fst (ShardGroupAt srt l (Time p)) of
        None \<Rightarrow>
          mapLoop srt (snd (ShardGroupAt srt l (Time p)))
            (mapping\<lparr>sm_Dropped := sm_Dropped mapping @ [p]\<rparr>)
            (stats\<lparr>WriteDropped := WriteDropped stats + 1\<rparr>) ps
      | Some sg \<Rightarrow>
          (case ShardFor sg p of
             None \<Rightarrow> Inl (Panic ''integer divide by zero'')
           | Some sh \<Rightarrow>
               mapLoop srt (snd (ShardGroupAt srt l (Time p))) (MapPoint mapping sh p) stats ps))"

text \<open>
  \<open>PointsWriter.MapShards\<close>. \<open>now\<close> is the reading of the clock, \<open>MinNanoTime\<close> the
  constant of the package \<open>models\<close>, \<open>stats\<close> the counters of the writer.
\<close>

definition MapShards ::
  "(ShardGroupInfo list \<Rightarrow> ShardGroupInfo list) \<Rightarrow> int \<Rightarrow> time \<Rightarrow> MetaClient \<Rightarrow> WriteStatistics \<Rightarrow>
     WritePointsRequest \<Rightarrow> error + (ShardMapping \<times> WriteStatistics)" where
  "MapShards srt MinNanoTime now mc stats wp =
     (case mc_RetentionPolicy mc (wp_Database wp) (wp_RetentionPolicy wp) of
        Inl err \<Rightarrow> Inl err
      | Inr None \<Rightarrow> Inl (ErrRetentionPolicyNotFound (wp_RetentionPolicy wp))
      | Inr (Some rp) \<Rightarrow>
          (let list = \<lparr>items = [], needsSort = False, earliest = 0, latest = 0\<rparr>;
               tmin = (if Duration rp > 0 then now + (- Duration rp) else Unix0 MinNanoTime)
           in case createLoop srt mc (wp_Database wp) (wp_RetentionPolicy wp) tmin 0 list
                     (wp_Points wp) of
                Inl err \<Rightarrow> Inl err
              | Inr list' \<Rightarrow>
                  mapLoop srt list' (NewShardMapping (length (wp_Points wp))) stats
                    (wp_Points wp)))"

text \<open>
  What \<open>sort.Sort\<close> promises for \<open>ShardGroupInfos\<close>: a permutation in which no element
  is \<open>Less\<close> than an earlier one.
\<close>

definition sortContract :: "(ShardGroupInfo list \<Rightarrow> ShardGroupInfo list) \<Rightarrow> bool" where
  "sortContract srt =
     (\<forall>gs. mset (srt gs) = mset gs \<and> sorted_wrt (\<lambda>a b. \<not> ShardGroupInfos_Less b a) (srt gs))"

text \<open>Two groups for the mapper: the first truncated at 5, the second made after it.\<close>

definition overlappingList :: sgList where
  "overlappingList =
     Add (Add \<lparr>items = [], needsSort = False, earliest = 0, latest = 0\<rparr>
       \<lparr>ShardGroupInfo.ID = 2, StartTime = 5, EndTime = 10, DeletedAt = 0,
        Shards = [\<lparr>ShardInfo.ID = 2, Owners = [\<lparr>NodeID = 1\<rparr>]\<rparr>], TruncatedAt = 0\<rparr>)
       \<lparr>ShardGroupInfo.ID = 1, StartTime = 0, EndTime = 10, DeletedAt = 0,
        Shards = [\<lparr>ShardInfo.ID = 1, Owners = [\<lparr>NodeID = 1\<rparr>]\<rparr>], TruncatedAt = 5\<rparr>"

text \<open>
  The points mapped to a shard (none when the shard has no entry), and the points of a
  request that a list of decisions, one per point, sends to the same place: \<open>None\<close> for
  the dropped points, \<open>Some sid\<close> for those mapped to the shard \<open>sid\<close>.
\<close>

definition pointsOf :: "ShardMapping \<Rightarrow> uint64 \<Rightarrow> Point list" where
  "pointsOf m sid = (case mapGet (sm_Points m) sid of None \<Rightarrow> [] | Some ps \<Rightarrow> ps)"

definition chosen :: "Point list \<Rightarrow> uint64 option list \<Rightarrow> uint64 option \<Rightarrow> Point list" where
  "chosen ps dec d = map fst (filter (\<lambda>pd. snd pd = d) (zip ps dec))"

section \<open>Points writer\<close>

datatype ConsistencyLevel =
    ConsistencyLevelAny
  | ConsistencyLevelOne
  | ConsistencyLevelQuorum
  | ConsistencyLevelAll

text \<open>
  The message of an error, \<open>err.Error()\<close>. The messages of the errors that are declared
  in the files at hand are written out; those of the packages \<open>hh\<close>, \<open>tsdb\<close> and
  \<open>influxdb\<close> are given by the parameter \<open>ext\<close>.
\<close>

definition Error :: "(error \<Rightarrow> string) \<Rightarrow> error \<Rightarrow> string" where
  "Error ext e =
     (case e of
        ErrTimeout \<Rightarrow> ''timeout''
      | ErrPartialWrite \<Rightarrow> ''partial write''
      | ErrWriteFailed \<Rightarrow> ''write failed''
      | ErrorsNew msg \<Rightarrow> msg
      | External msg \<Rightarrow> msg
      | _ \<Rightarrow> ext e)"

text \<open>
  A subscriber channel, as far as a send without blocking sees it: \<open>nil\<close>, or a channel
  with its capacity, the number of buffered requests and the number of receivers that
  wait. \<open>trySend\<close> is one \<open>select\<close> with a send and a \<open>default\<close>.
\<close>

datatype chan = NilChan | Chan nat nat nat


text \<open>
  The points writer: its settings, its collaborators (the methods of the interfaces
  \<open>TSDBStore\<close>, \<open>ShardWriter\<close> and \<open>HintedHandoff\<close> and the function \<open>hh.IsRetryable\<close>, as
  functions of their arguments; \<open>store_WriteToShard\<close> takes the number of the attempt
  first, since the write is tried again after \<open>CreateShard\<close>), the messages of the
  errors declared elsewhere, the subscriber channels and the counters.
\<close>

record PointsWriter =
  AllowOutOfOrderWrites :: bool
  pw_MetaClient :: MetaClient
  store_WriteToShard :: "nat \<Rightarrow> uint64 \<Rightarrow> Point list \<Rightarrow> error option"
  store_CreateShard :: "string \<Rightarrow> string \<Rightarrow> uint64 \<Rightarrow> bool \<Rightarrow> error option"
  sw_WriteShard :: "uint64 \<Rightarrow> uint64 \<Rightarrow> Point list \<Rightarrow> error option"
  hh_WriteShard :: "uint64 \<Rightarrow> uint64 \<Rightarrow> Point list \<Rightarrow> error option"
  hh_Empty :: "uint64 \<Rightarrow> uint64 \<Rightarrow> bool"
  hh_IsRetryable :: "error \<Rightarrow> bool"
  ext_Error :: "error \<Rightarrow> string"
  subPoints :: "chan list"
  pw_stats :: WriteStatistics

record AsyncWriteResult =
  awr_Owner :: ShardOwner
  awr_Err :: "error option"

text \<open>
  What a \<open>select\<close> of the writer receives: the closing signal, the expiry of the timer,
  or a result from the channel.
\<close>

datatype 'a event = Closing | Timeout | Result 'a

subsection \<open>Writing to the owners of a shard\<close>

text \<open>
  The goroutine that \<open>writeToShardWithContext\<close> starts for one owner: the result that
  it sends and the counters after it has run.
\<close>

definition ownerWrite ::
  "PointsWriter \<Rightarrow> string \<Rightarrow> string \<Rightarrow> ConsistencyLevel \<Rightarrow> uint64 \<Rightarrow> Point list \<Rightarrow>
     WriteStatistics \<Rightarrow> ShardOwner \<Rightarrow> AsyncWriteResult \<times> WriteStatistics" where
  "ownerWrite w database retentionPolicy consistency shardID points st owner =
     (let n = int (length points) in
      if mc_NodeID (pw_MetaClient w) = NodeID owner then
        (let st' = st\<lparr>PointWriteReqLocal := PointWriteReqLocal st + n\<rparr>;
             err = store_WriteToShard w 0 shardID points
         in if err = Some ErrShardNotFound then
              (case store_CreateShard w database retentionPolicy shardID True of
                 Some err' \<Rightarrow> (\<lparr>awr_Owner = owner, awr_Err = Some err'\<rparr>, st')
               | None \<Rightarrow>
                   (\<lparr>awr_Owner = owner, awr_Err = store_WriteToShard w 1 shardID points\<rparr>, st'))
            else (\<lparr>awr_Owner = owner, awr_Err = err\<rparr>, st'))
      else if \<not> AllowOutOfOrderWrites w \<and> \<not> hh_Empty w shardID (NodeID owner) then
        (let st' = st\<lparr>PointWriteReqHH := PointWriteReqHH st + n\<rparr>
         in case hh_WriteShard w shardID (NodeID owner) points of
              Some hherr \<Rightarrow> (\<lparr>awr_Owner = owner, awr_Err = Some hherr\<rparr>, st')
            | None \<Rightarrow> (\<lparr>awr_Owner = owner, awr_Err = Some ErrHintedHandoffQueueNotEmpty\<rparr>, st'))
      else
        (let st' = st\<lparr>PointWriteReqRemote := PointWriteReqRemote st + n\<rparr>
         in case sw_WriteShard w shardID (NodeID owner) points of
              None \<Rightarrow> (\<lparr>awr_Owner = owner, awr_Err = None\<rparr>, st')
            | Some err \<Rightarrow>
                if hh_IsRetryable w err then
                  (let st'' = st'\<lparr>PointWriteReqHH := PointWriteReqHH st' + n\<rparr>
                   in case hh_WriteShard w shardID (NodeID owner) points of
                        Some hherr \<Rightarrow> (\<lparr>awr_Owner = owner, awr_Err = Some hherr\<rparr>, st'')
                      | None \<Rightarrow>
                          if consistency = ConsistencyLevelAny
                          then (\<lparr>awr_Owner = owner, awr_Err = None\<rparr>, st'')
                          else (\<lparr>awr_Owner = owner, awr_Err = Some err\<rparr>, st''))
                else (\<lparr>awr_Owner = owner, awr_Err = Some err\<rparr>, st')))"

text \<open>All the goroutines of a shard: their results in the order of the owners.\<close>

fun ownerWrites ::
  "PointsWriter \<Rightarrow> string \<Rightarrow> string \<Rightarrow> ConsistencyLevel \<Rightarrow> uint64 \<Rightarrow> Point list \<Rightarrow>
     WriteStatistics \<Rightarrow> ShardOwner list \<Rightarrow> AsyncWriteResult list \<times> WriteStatistics" where
  "ownerWrites w database retentionPolicy consistency shardID points st [] = ([], st)"
| "ownerWrites w database retentionPolicy consistency shardID points st (owner # owners) =
     (let (r, st') = ownerWrite w database retentionPolicy consistency shardID points st owner;
          (rs, st'') = ownerWrites w database retentionPolicy consistency shardID points st' owners
      in (r # rs, st''))"

text \<open>The number of acknowledgments that a consistency level asks of \<open>n\<close> owners.\<close>

definition requiredWrites :: "ConsistencyLevel \<Rightarrow> int \<Rightarrow> int" where
  "requiredWrites consistency n =
     (case consistency of
        ConsistencyLevelAny \<Rightarrow> 1
      | ConsistencyLevelOne \<Rightarrow> 1
      | ConsistencyLevelQuorum \<Rightarrow> n div 2 + 1
      | ConsistencyLevelAll \<Rightarrow> n)"

text \<open>
  The loop \<open>for range shard.Owners\<close> with its \<open>select\<close>: \<open>k\<close> rounds are left, \<open>evs\<close> is
  what the rounds receive, in order. The timer always fires in the end, so a round for
  which nothing else is left receives its expiry.
\<close>

fun collect ::
  "(error \<Rightarrow> string) \<Rightarrow> int \<Rightarrow> nat \<Rightarrow> AsyncWriteResult event list \<Rightarrow> int \<Rightarrow> error option \<Rightarrow>
     WriteStatistics \<Rightarrow> error option \<times> WriteStatistics" where
  "collect ext required 0 evs wrote writeError st =
     (if wrote > 0 then (Some ErrPartialWrite, st\<lparr>WritePartial := WritePartial st + 1\<rparr>)
      else case writeError of
             Some err \<Rightarrow> (Some (ErrorsNew (''write failed: '' @ Error ext err)), st)
           | None \<Rightarrow> (Some ErrWriteFailed, st))"
| "collect ext required (Suc k) [] wrote writeError st =
     (Some ErrTimeout, st\<lparr>WriteTimeout := WriteTimeout st + 1\<rparr>)"
| "collect ext required (Suc k) (Closing # evs) wrote writeError st = (Some ErrWriteFailed, st)"
| "collect ext required (Suc k) (Timeout # evs) wrote writeError st =
     (Some ErrTimeout, st\<lparr>WriteTimeout := WriteTimeout st + 1\<rparr>)"
| "collect ext required (Suc k) (Result result # evs) wrote writeError st =
     (case awr_Err result of
        Some err \<Rightarrow>
          (let st' = st\<lparr>WriteErr := WriteErr st + 1\<rparr>
           in if Error ext err = Error ext ErrQueueBlocked
              then collect ext required k evs wrote writeError st'
              else collect ext required k evs wrote
                     (if writeError = None then Some err else writeError) st')
      | None \<Rightarrow>
          (if wrote + 1 \<ge> required then (None, st\<lparr>WriteOK := WriteOK st + 1\<rparr>)
           else collect ext required k evs (wrote + 1) writeError st))"

text \<open>
  \<open>writeToShardWithContext\<close>. \<open>sched\<close> turns the results of the goroutines into what the
  loop receives: it orders them and may put the closing signal or the timer between
  them.
\<close>

definition writeToShardWithContext ::
  "PointsWriter \<Rightarrow> (AsyncWriteResult list \<Rightarrow> AsyncWriteResult event list) \<Rightarrow> WriteStatistics \<Rightarrow>
     ShardInfo \<Rightarrow> string \<Rightarrow> string \<Rightarrow> ConsistencyLevel \<Rightarrow> Point list \<Rightarrow>
     error option \<times> WriteStatistics" where
  "writeToShardWithContext w sched st shard database retentionPolicy consistency points =
     (let required = requiredWrites consistency (int (length (Owners shard)));
          (results, st') = ownerWrites w database retentionPolicy consistency (ShardInfo.ID shard)
                             points st (Owners shard)
      in collect (ext_Error w) required (length (Owners shard)) (sched results) 0 None st')"

subsection \<open>Writing the points of a request\<close>








text \<open>A small store used to run the operations: one database, one policy, two groups.\<close>

definition exampleGroups :: "ShardGroupInfo list" where
  "exampleGroups =
     [\<lparr>ShardGroupInfo.ID = 1, StartTime = 0, EndTime = 10, DeletedAt = 0,
        Shards = [\<lparr>ShardInfo.ID = 1, Owners = [\<lparr>NodeID = 1\<rparr>, \<lparr>NodeID = 2\<rparr>]\<rparr>,
                  \<lparr>ShardInfo.ID = 2, Owners = [\<lparr>NodeID = 2\<rparr>, \<lparr>NodeID = 3\<rparr>]\<rparr>],
        TruncatedAt = 0\<rparr>,
      \<lparr>ShardGroupInfo.ID = 2, StartTime = 10, EndTime = 20, DeletedAt = 0,
        Shards = [\<lparr>ShardInfo.ID = 3, Owners = [\<lparr>NodeID = 2\<rparr>]\<rparr>],
        TruncatedAt = 0\<rparr>]"

definition exampleNodes :: "NodeInfo list" where
  "exampleNodes =
     [\<lparr>NodeInfo.ID = 1, Addr = ''a:8086'', TCPAddr = ''a:8088''\<rparr>,
      \<lparr>NodeInfo.ID = 2, Addr = ''b:8086'', TCPAddr = ''b:8088''\<rparr>,
      \<lparr>NodeInfo.ID = 3, Addr = ''c:8086'', TCPAddr = ''c:8088''\<rparr>]"


definition exampleData :: "NodeInfo list \<Rightarrow> int \<Rightarrow> ShardGroupInfo list \<Rightarrow> Data" where
  "exampleData nodes replicaN sgs =
     \<lparr>Term = 1, Index = 5, ClusterID = 1, MetaNodes = [], DataNodes = nodes,
      Databases =
        [\<lparr>DatabaseInfo.Name = ''db0'', DefaultRetentionPolicy = ''rp0'',
          RetentionPolicies =
            [\<lparr>RetentionPolicyInfo.Name = ''rp0'', ReplicaN = replicaN, Duration = 0,
              ShardGroupDuration = 10, ShardGroups = sgs, Subscriptions = []\<rparr>],
          ContinuousQueries = []\<rparr>],
      Users = [], adminUserExists = False,
      MaxNodeID = 4, MaxShardGroupID = 2, MaxShardID = 3\<rparr>"

text \<open>
  For the examples of the mapper: a meta client that answers from a store (every call
  starts from the same store), a store whose policy keeps 100 nanoseconds in groups of
  100, counters at zero and a request of two points.
\<close>

definition exampleMinNanoTime :: int where
  "exampleMinNanoTime = - 9223372036854775806"

definition storeClient :: "Data \<Rightarrow> MetaClient" where
  "storeClient data =
     \<lparr>mc_NodeID = 1,
      mc_Database = Database data,
      mc_RetentionPolicy = RetentionPolicy data,
      mc_CreateShardGroup = (\<lambda>k db rp t.
        case CreateShardGroup exampleMaxNanoTime insertionSort data db rp t of
          (Some err, data') \<Rightarrow> Inl err
        | (None, data') \<Rightarrow>
            (case RetentionPolicy data' db rp of
               Inl err \<Rightarrow> Inl err
             | Inr None \<Rightarrow> Inr None
             | Inr (Some rpi) \<Rightarrow> Inr (ShardGroupByTimestamp rpi t)))\<rparr>"

definition mapperData :: Data where
  "mapperData =
     setPolicy ''db0'' ''rp0'' (\<lambda>rpi. rpi\<lparr>Duration := 100, ShardGroupDuration := 100\<rparr>)
       (exampleData exampleNodes 1 [])"

definition zeroStats :: WriteStatistics where
  "zeroStats =
     \<lparr>WriteReq = 0, PointWriteReq = 0, PointWriteReqLocal = 0, PointWriteReqRemote = 0,
      PointWriteReqHH = 0, WriteOK = 0, WritePartial = 0, WriteDropped = 0, WriteTimeout = 0,
      WriteErr = 0, SubWriteOK = 0, SubWriteDrop = 0\<rparr>"

definition exampleRequest :: "time list \<Rightarrow> WritePointsRequest" where
  "exampleRequest ts =
     \<lparr>wp_Database = ''db0'', wp_RetentionPolicy = ''rp0'',
      wp_Points = map (\<lambda>t. \<lparr>Key = ''cpu'', Time = t, HashID = 1\<rparr>) ts\<rparr>"

text \<open>
  For the results that a shard's loop receives: the number of successes, and the first
  error that the loop saves (the first one whose message is not that of
  \<open>ErrQueueBlocked\<close>).
\<close>

definition successes :: "AsyncWriteResult list \<Rightarrow> nat" where
  "successes rs = length (filter (\<lambda>r. awr_Err r = None) rs)"

definition savedError :: "(error \<Rightarrow> string) \<Rightarrow> AsyncWriteResult list \<Rightarrow> error option" where
  "savedError ext rs =
     find (\<lambda>e. Error ext e \<noteq> Error ext ErrQueueBlocked) (List.map_filter awr_Err rs)"

text \<open>
  For the examples of the writer: messages for the errors declared in other packages
  (the two sentinels of \<open>hh\<close> are two variables, with a message each), and a writer on
  node 1 whose local store and hinted handoff accept every write, whose remote writes
  answer as \<open>remote\<close> says, with the handoff queues that \<open>queued\<close> names not empty.
\<close>

definition exampleMessages :: "error \<Rightarrow> string" where
  "exampleMessages e =
     (case e of
        ErrHintedHandoffQueueNotEmpty \<Rightarrow> ''hinted handoff queue not empty''
      | ErrQueueBlocked \<Rightarrow> ''queue is blocked''
      | ErrShardNotFound \<Rightarrow> ''shard not found''
      | ErrShardDeletion \<Rightarrow> ''shard is being deleted''
      | ErrNodeNotFound \<Rightarrow> ''node not found''
      | ErrDatabaseNotFound name \<Rightarrow> ''database not found: '' @ name
      | ErrRetentionPolicyNotFound name \<Rightarrow> ''retention policy not found: '' @ name
      | PartialWriteError reason dropped \<Rightarrow> ''partial write: '' @ reason
      | _ \<Rightarrow> [])"

definition exampleWriter :: "(uint64 \<Rightarrow> error option) \<Rightarrow> uint64 list \<Rightarrow> chan list \<Rightarrow> PointsWriter" where
  "exampleWriter remote queued chans =
     \<lparr>AllowOutOfOrderWrites = False,
      pw_MetaClient = storeClient mapperData,
      store_WriteToShard = (\<lambda>attempt shardID points. None),
      store_CreateShard = (\<lambda>database retentionPolicy shardID enabled. None),
      sw_WriteShard = (\<lambda>shardID nodeID points. remote nodeID),
      hh_WriteShard = (\<lambda>shardID nodeID points. None),
      hh_Empty = (\<lambda>shardID nodeID. nodeID \<notin> set queued),
      hh_IsRetryable = (\<lambda>err. err = External ''connection refused''),
      ext_Error = exampleMessages,
      subPoints = chans,
      pw_stats = zeroStats\<rparr>"

definition examplePoints :: "Point list" where
  "examplePoints = [\<lparr>Key = ''cpu'', Time = 960, HashID = 1\<rparr>]"

definition exampleShard :: "uint64 list \<Rightarrow> ShardInfo" where
  "exampleShard nodeIDs = \<lparr>ShardInfo.ID = 5, Owners = map (\<lambda>i. \<lparr>NodeID = i\<rparr>) nodeIDs\<rparr>"

definition refuse2 :: "uint64 \<Rightarrow> error option" where
  "refuse2 nodeID = (if nodeID = 2 then Some (External ''connection refused'') else None)"


section \<open>Properties of the lease table\<close>

text \<open>
  Claim C9. \<open>Acquire name nodeID\<close> returns a nil error exactly when the named lease is
  absent, or present and expired (the clock reads after its expiration), or present and
  owned by \<open>nodeID\<close>. When it grants, the returned lease is the one stored under \<open>name\<close>,
  its owner is \<open>nodeID\<close> and its expiration is the clock reading plus the configured
  lifetime. Otherwise the existing lease is returned as it is, the table is unchanged
  and the error is "another node has the lease".
\<close>

theorem Acquire_grants_iff:
  "(snd (fst (Acquire now leases name nodeID)) = None \<longleftrightarrow>
      (Leases_m leases name = None \<or>
       (\<exists>l. Leases_m leases name = Some l \<and> (now 0 > Expiration l \<or> Owner l = nodeID)))) \<and>
   (Leases_m leases name = None \<longrightarrow>
      Acquire now leases name nodeID =
        ((\<lparr>Lease.Name = name, Expiration = now 0 + Leases_d leases, Owner = nodeID\<rparr>, None),
         leases\<lparr>Leases_m := (Leases_m leases)
           (name \<mapsto> \<lparr>Lease.Name = name, Expiration = now 0 + Leases_d leases, Owner = nodeID\<rparr>)\<rparr>)) \<and>
   (\<forall>l. Leases_m leases name = Some l \<and> (now 0 > Expiration l \<or> Owner l = nodeID) \<longrightarrow>
      Acquire now leases name nodeID =
        ((l\<lparr>Expiration := now 1 + Leases_d leases, Owner := nodeID\<rparr>, None),
         leases\<lparr>Leases_m := (Leases_m leases)
           (name \<mapsto> l\<lparr>Expiration := now 1 + Leases_d leases, Owner := nodeID\<rparr>)\<rparr>)) \<and>
   (\<forall>l. Leases_m leases name = Some l \<and> \<not> (now 0 > Expiration l \<or> Owner l = nodeID) \<longrightarrow>
      Acquire now leases name nodeID =
        ((l, Some (ErrorsNew ''another node has the lease'')), leases))"
  by (auto simp: Acquire_def Let_def split: option.splits)

theorem Acquire_grants_iff_witness:
  "Acquire (\<lambda>k. 100 + int k)
     \<lparr>Leases_m = [''cq'' \<mapsto> \<lparr>Lease.Name = ''cq'', Expiration = 150, Owner = 1\<rparr>], Leases_d = 60\<rparr> ''cq'' 2
   = ((\<lparr>Lease.Name = ''cq'', Expiration = 150, Owner = 1\<rparr>, Some (ErrorsNew ''another node has the lease'')),
      \<lparr>Leases_m = [''cq'' \<mapsto> \<lparr>Lease.Name = ''cq'', Expiration = 150, Owner = 1\<rparr>], Leases_d = 60\<rparr>)
   \<and> snd (fst (Acquire (\<lambda>k. 200 + int k)
     \<lparr>Leases_m = [''cq'' \<mapsto> \<lparr>Lease.Name = ''cq'', Expiration = 150, Owner = 1\<rparr>], Leases_d = 60\<rparr> ''cq'' 2)) = None
   \<and> fst (fst (Acquire (\<lambda>k. 200 + int k)
     \<lparr>Leases_m = [''cq'' \<mapsto> \<lparr>Lease.Name = ''cq'', Expiration = 150, Owner = 1\<rparr>], Leases_d = 60\<rparr> ''cq'' 2))
      = \<lparr>Lease.Name = ''cq'', Expiration = 261, Owner = 2\<rparr>"
  using Acquire_grants_iff [of "\<lambda>k. 100 + int k"
      "\<lparr>Leases_m = [''cq'' \<mapsto> \<lparr>Lease.Name = ''cq'', Expiration = 150, Owner = 1\<rparr>], Leases_d = 60\<rparr>" "''cq''" 2]
    Acquire_grants_iff [of "\<lambda>k. 200 + int k"
      "\<lparr>Leases_m = [''cq'' \<mapsto> \<lparr>Lease.Name = ''cq'', Expiration = 150, Owner = 1\<rparr>], Leases_d = 60\<rparr>" "''cq''" 2]
  by simp

section \<open>Properties of dropping a shard\<close>

lemma updateFirst_None: "updateFirst f xs = None \<longleftrightarrow> (\<forall>x \<in> set xs. f x = None)"
  by (induction xs) (auto split: option.splits)

lemma updateFirst_Some:
  "updateFirst f xs = Some ys \<Longrightarrow>
     \<exists>xs1 x xs2 x'. xs = xs1 @ x # xs2 \<and> (\<forall>y \<in> set xs1. f y = None) \<and> f x = Some x' \<and>
        ys = xs1 @ x' # xs2"
proof (induction xs arbitrary: ys)
  case Nil
  then show ?case by simp
next
  case (Cons a xs)
  show ?case
  proof (cases "f a")
    case None
    with Cons.prems obtain zs where zs: "updateFirst f xs = Some zs" "ys = a # zs"
      by auto
    from Cons.IH [OF zs(1)] obtain xs1 x xs2 x' where
      "xs = xs1 @ x # xs2" "\<forall>y \<in> set xs1. f y = None" "f x = Some x'" "zs = xs1 @ x' # xs2"
      by blast
    with None zs(2) have
      "a # xs = (a # xs1) @ x # xs2 \<and> (\<forall>y \<in> set (a # xs1). f y = None) \<and> f x = Some x' \<and>
         ys = (a # xs1) @ x' # xs2"
      by simp
    then show ?thesis by blast
  next
    case (Some a')
    with Cons.prems have "a # xs = [] @ a # xs \<and> (\<forall>y \<in> set []. f y = None) \<and> f a = Some a' \<and>
        ys = [] @ a' # xs"
      by simp
    then show ?thesis by blast
  qed
qed

lemma findShard_None: "findShard sid ss = None \<longleftrightarrow> (\<forall>s \<in> set ss. ShardInfo.ID s \<noteq> sid)"
  by (induction ss) auto

lemma findShard_Some:
  "findShard sid ss = Some i \<Longrightarrow>
     i < length ss \<and> ShardInfo.ID (ss ! i) = sid \<and> (\<forall>j < i. ShardInfo.ID (ss ! j) \<noteq> sid)"
proof (induction ss arbitrary: i)
  case Nil
  then show ?case by simp
next
  case (Cons s ss)
  show ?case
  proof (cases "ShardInfo.ID s = sid")
    case True
    with Cons.prems show ?thesis by simp
  next
    case False
    with Cons.prems obtain k where k: "findShard sid ss = Some k" "i = Suc k"
      by auto
    from Cons.IH [OF k(1)] False k(2) show ?thesis
      by (auto simp: less_Suc_eq_0_disj)
  qed
qed

lemma dropShardGroup_None: "dropShardGroup now sid sg = None \<longleftrightarrow> \<not> holdsShard sid sg"
  by (simp add: dropShardGroup_def holdsShard_def Let_def split: option.splits)

lemma inPolicy_None:
  "inPolicy f rpi = None \<longleftrightarrow> (\<forall>sg \<in> set (ShardGroups rpi). f sg = None)"
  by (simp add: inPolicy_def updateFirst_None)

lemma inDatabase_None:
  "inDatabase f dbi = None \<longleftrightarrow>
     (\<forall>rpi \<in> set (RetentionPolicies dbi). \<forall>sg \<in> set (ShardGroups rpi). f sg = None)"
  by (simp add: inDatabase_def updateFirst_None inPolicy_None)

lemma DropShard_absent:
  assumes "\<forall>sg \<in> set (allShardGroups data). \<not> holdsShard sid sg"
  shows "DropShard now data sid = data"
proof -
  have "\<forall>dbi \<in> set (Databases data). inDatabase (dropShardGroup now sid) dbi = None"
    using assms by (auto simp: inDatabase_None dropShardGroup_None allShardGroups_def)
  then have "updateFirst (inDatabase (dropShardGroup now sid)) (Databases data) = None"
    by (simp add: updateFirst_None)
  then show ?thesis by (simp add: DropShard_def)
qed

lemma DropShard_present:
  assumes "\<exists>sg \<in> set (allShardGroups data). holdsShard sid sg"
  shows "\<exists>dbs1 dbi dbs2 rps1 rpi rps2 sgs1 sg sgs2 found.
      Databases data = dbs1 @ dbi # dbs2 \<and>
      RetentionPolicies dbi = rps1 @ rpi # rps2 \<and>
      ShardGroups rpi = sgs1 @ sg # sgs2 \<and>
      (\<forall>d \<in> set dbs1. \<forall>r \<in> set (RetentionPolicies d). \<forall>g \<in> set (ShardGroups r). \<not> holdsShard sid g) \<and>
      (\<forall>r \<in> set rps1. \<forall>g \<in> set (ShardGroups r). \<not> holdsShard sid g) \<and>
      (\<forall>g \<in> set sgs1. \<not> holdsShard sid g) \<and>
      findShard sid (Shards sg) = Some found \<and>
      DropShard now data sid =
        data\<lparr>Databases := dbs1 @
          dbi\<lparr>RetentionPolicies := rps1 @
            rpi\<lparr>ShardGroups := sgs1 @
              sg\<lparr>Shards := removeAt found (Shards sg),
                 DeletedAt := (if length (Shards sg) = 1 then now else DeletedAt sg)\<rparr>
              # sgs2\<rparr>
            # rps2\<rparr>
          # dbs2\<rparr>"
proof -
  let ?f = "dropShardGroup now sid"
  from assms have "\<not> (\<forall>dbi \<in> set (Databases data). inDatabase ?f dbi = None)"
    by (auto simp: inDatabase_None dropShardGroup_None allShardGroups_def)
  then obtain dbs where dbs: "updateFirst (inDatabase ?f) (Databases data) = Some dbs"
    by (auto simp: updateFirst_None [symmetric])
  from updateFirst_Some [OF dbs] obtain dbs1 dbi dbs2 dbi' where
    d: "Databases data = dbs1 @ dbi # dbs2" "\<forall>y \<in> set dbs1. inDatabase ?f y = None"
       "inDatabase ?f dbi = Some dbi'" "dbs = dbs1 @ dbi' # dbs2"
    by blast
  from d(3) obtain rps where rps: "updateFirst (inPolicy ?f) (RetentionPolicies dbi) = Some rps"
    and dbi': "dbi' = dbi\<lparr>RetentionPolicies := rps\<rparr>"
    by (auto simp: inDatabase_def)
  from updateFirst_Some [OF rps] obtain rps1 rpi rps2 rpi' where
    r: "RetentionPolicies dbi = rps1 @ rpi # rps2" "\<forall>y \<in> set rps1. inPolicy ?f y = None"
       "inPolicy ?f rpi = Some rpi'" "rps = rps1 @ rpi' # rps2"
    by blast
  from r(3) obtain sgs where sgs: "updateFirst ?f (ShardGroups rpi) = Some sgs"
    and rpi': "rpi' = rpi\<lparr>ShardGroups := sgs\<rparr>"
    by (auto simp: inPolicy_def)
  from updateFirst_Some [OF sgs] obtain sgs1 sg sgs2 sg' where
    g: "ShardGroups rpi = sgs1 @ sg # sgs2" "\<forall>y \<in> set sgs1. ?f y = None"
       "?f sg = Some sg'" "sgs = sgs1 @ sg' # sgs2"
    by blast
  from g(3) obtain found where found: "findShard sid (Shards sg) = Some found"
    and sg': "sg' = sg\<lparr>Shards := removeAt found (Shards sg),
                 DeletedAt := (if length (Shards sg) = 1 then now else DeletedAt sg)\<rparr>"
    by (auto simp: dropShardGroup_def Let_def split: option.splits)
  have res: "DropShard now data sid = data\<lparr>Databases := dbs\<rparr>"
    using dbs by (simp add: DropShard_def)
  have p1: "\<forall>d \<in> set dbs1. \<forall>r \<in> set (RetentionPolicies d). \<forall>g \<in> set (ShardGroups r). \<not> holdsShard sid g"
    using d(2) by (simp add: inDatabase_None dropShardGroup_None)
  have p2: "\<forall>r \<in> set rps1. \<forall>g \<in> set (ShardGroups r). \<not> holdsShard sid g"
    using r(2) by (simp add: inPolicy_None dropShardGroup_None)
  have p3: "\<forall>g \<in> set sgs1. \<not> holdsShard sid g"
    using g(2) by (simp add: dropShardGroup_None)
  show ?thesis
    using d(1) r(1) g(1) p1 p2 p3 found res d(4) dbi' r(4) rpi' g(4) sg' by blast
qed


text \<open>
  Claim C10. \<open>DropShard\<close> has no error result. When no shard group of the store holds a
  shard with the given ID, the store is returned as it is. Otherwise the store splits
  at the first shard group (in the order databases, policies, groups) that holds such a
  shard: every group before it holds none, and the result differs from the store in that
  group only, which loses the first shard with the ID and gets its \<open>DeletedAt\<close> set to the
  clock reading exactly when that shard was its only one.
\<close>

theorem DropShard_effect:
  "((\<forall>sg \<in> set (allShardGroups data). \<not> holdsShard sid sg) \<longrightarrow> DropShard now data sid = data) \<and>
   ((\<exists>sg \<in> set (allShardGroups data). holdsShard sid sg) \<longrightarrow>
    (\<exists>dbs1 dbi dbs2 rps1 rpi rps2 sgs1 sg sgs2 found.
      Databases data = dbs1 @ dbi # dbs2 \<and>
      RetentionPolicies dbi = rps1 @ rpi # rps2 \<and>
      ShardGroups rpi = sgs1 @ sg # sgs2 \<and>
      (\<forall>d \<in> set dbs1. \<forall>r \<in> set (RetentionPolicies d). \<forall>g \<in> set (ShardGroups r). \<not> holdsShard sid g) \<and>
      (\<forall>r \<in> set rps1. \<forall>g \<in> set (ShardGroups r). \<not> holdsShard sid g) \<and>
      (\<forall>g \<in> set sgs1. \<not> holdsShard sid g) \<and>
      findShard sid (Shards sg) = Some found \<and>
      DropShard now data sid =
        data\<lparr>Databases := dbs1 @
          dbi\<lparr>RetentionPolicies := rps1 @
            rpi\<lparr>ShardGroups := sgs1 @
              sg\<lparr>Shards := removeAt found (Shards sg),
                 DeletedAt := (if length (Shards sg) = 1 then now else DeletedAt sg)\<rparr>
              # sgs2\<rparr>
            # rps2\<rparr>
          # dbs2\<rparr>))"
proof (intro conjI impI)
  assume "\<forall>sg \<in> set (allShardGroups data). \<not> holdsShard sid sg"
  then show "DropShard now data sid = data" by (rule DropShard_absent)
next
  assume "\<exists>sg \<in> set (allShardGroups data). holdsShard sid sg"
  then show "\<exists>dbs1 dbi dbs2 rps1 rpi rps2 sgs1 sg sgs2 found.
      Databases data = dbs1 @ dbi # dbs2 \<and>
      RetentionPolicies dbi = rps1 @ rpi # rps2 \<and>
      ShardGroups rpi = sgs1 @ sg # sgs2 \<and>
      (\<forall>d \<in> set dbs1. \<forall>r \<in> set (RetentionPolicies d). \<forall>g \<in> set (ShardGroups r). \<not> holdsShard sid g) \<and>
      (\<forall>r \<in> set rps1. \<forall>g \<in> set (ShardGroups r). \<not> holdsShard sid g) \<and>
      (\<forall>g \<in> set sgs1. \<not> holdsShard sid g) \<and>
      findShard sid (Shards sg) = Some found \<and>
      DropShard now data sid =
        data\<lparr>Databases := dbs1 @
          dbi\<lparr>RetentionPolicies := rps1 @
            rpi\<lparr>ShardGroups := sgs1 @
              sg\<lparr>Shards := removeAt found (Shards sg),
                 DeletedAt := (if length (Shards sg) = 1 then now else DeletedAt sg)\<rparr>
              # sgs2\<rparr>
            # rps2\<rparr>
          # dbs2\<rparr>"
    by (rule DropShard_present)
qed

theorem DropShard_effect_witness:
  "DropShard 1000 (exampleData exampleNodes 2 exampleGroups) 9 = exampleData exampleNodes 2 exampleGroups \<and>
   allShardGroups (DropShard 1000 (exampleData exampleNodes 2 exampleGroups) 3) =
     [exampleGroups ! 0, (exampleGroups ! 1)\<lparr>Shards := [], DeletedAt := 1000\<rparr>] \<and>
   allShardGroups (DropShard 1000 (exampleData exampleNodes 2 exampleGroups) 1) =
     [(exampleGroups ! 0)\<lparr>Shards := [\<lparr>ShardInfo.ID = 2, Owners = [\<lparr>NodeID = 2\<rparr>, \<lparr>NodeID = 3\<rparr>]\<rparr>]\<rparr>,
      exampleGroups ! 1]"
  using DropShard_effect [of "exampleData exampleNodes 2 exampleGroups" 9 1000]
    DropShard_effect [of "exampleData exampleNodes 2 exampleGroups" 3 1000]
  by (simp add: exampleData_def exampleGroups_def allShardGroups_def holdsShard_def
      DropShard_def inDatabase_def inPolicy_def dropShardGroup_def removeAt_def)


section \<open>Properties of shard group creation\<close>




lemma length_assignOwners [simp]: "length (assignOwners nodes r k sis) = length sis"
  by (induction sis arbitrary: k) auto

lemma length_newShards [simp]: "length (newShards m c) = c"
  by (simp add: newShards_def)



lemma find_setFirst:
  "find P xs = Some x \<Longrightarrow> P (f x) \<Longrightarrow> find P (setFirst P f xs) = Some (f x)"
  by (induction xs) (auto split: if_splits)

lemma setPolicy_lookup:
  assumes "RetentionPolicy data database policy = Inr (Some rpi)"
    and "RetentionPolicyInfo.Name (f rpi) = RetentionPolicyInfo.Name rpi"
  shows "RetentionPolicy (setPolicy database policy f data) database policy = Inr (Some (f rpi))"
proof -
  from assms(1) obtain di where di: "find (\<lambda>di. DatabaseInfo.Name di = database) (Databases data) = Some di"
    and rp: "find (\<lambda>rpi. RetentionPolicyInfo.Name rpi = policy) (RetentionPolicies di) = Some rpi"
    by (auto simp: RetentionPolicy_def Database_def split: option.splits)
  from di have dn: "DatabaseInfo.Name di = database" by (auto simp: find_Some_iff)
  from rp have rn: "RetentionPolicyInfo.Name rpi = policy" by (auto simp: find_Some_iff)
  let ?g = "\<lambda>di. di\<lparr>RetentionPolicies :=
            setFirst (\<lambda>rpi. RetentionPolicyInfo.Name rpi = policy) f (RetentionPolicies di)\<rparr>"
  have "find (\<lambda>di. DatabaseInfo.Name di = database)
          (setFirst (\<lambda>di. DatabaseInfo.Name di = database) ?g (Databases data)) = Some (?g di)"
    using di dn by (intro find_setFirst) auto
  moreover have "find (\<lambda>rpi. RetentionPolicyInfo.Name rpi = policy)
          (setFirst (\<lambda>rpi. RetentionPolicyInfo.Name rpi = policy) f (RetentionPolicies di)) = Some (f rpi)"
    using rp rn assms(2) by (intro find_setFirst) auto
  ultimately show ?thesis
    by (simp add: RetentionPolicy_def Database_def setPolicy_def)
qed

lemma CreateShardGroup_creates:
  assumes nodes: "DataNodes data \<noteq> []"
    and rp: "RetentionPolicy data database policy = Inr (Some rpi)"
    and none: "ShardGroupByTimestamp rpi timestamp = None"
    and srt: "\<forall>gs. mset (srt gs) = mset gs"
  shows "CreateShardGroup M srt data database policy timestamp =
           (None, setPolicy database policy
              (\<lambda>p. p\<lparr>ShardGroups := srt (ShardGroups p @ [newShardGroup M data rpi timestamp])\<rparr>)
              (data\<lparr>MaxShardGroupID := MaxShardGroupID data + 1,
                    MaxShardID := MaxShardID data + of_nat (length (Shards (newShardGroup M data rpi timestamp)))\<rparr>))"
  using assms by (simp add: CreateShardGroup_def Let_def)

lemma RetentionPolicy_counters:
  "RetentionPolicy (data\<lparr>MaxShardGroupID := a, MaxShardID := b\<rparr>) database policy =
   RetentionPolicy data database policy"
  by (simp add: RetentionPolicy_def Database_def)









lemma mset_insertGroup: "mset (insertGroup g gs) = add_mset g (mset gs)"
  by (induction gs) auto

lemma mset_insertionSort: "mset (insertionSort gs) = mset gs"
  by (induction gs) (auto simp: insertionSort_def mset_insertGroup)



lemma shrink_mono: "fst w \<le> fst (shrink t w g) \<and> snd (shrink t w g) \<le> snd w"
  by (auto simp: shrink_def Let_def)

lemma shrink_keeps: "(fst w \<le> t \<longrightarrow> fst (shrink t w g) \<le> t) \<and> (t < snd w \<longrightarrow> t < snd (shrink t w g))"
  by (auto simp: shrink_def Let_def)

lemma shrink_clears:
  "\<not> Deleted g \<Longrightarrow>
     (effEnd g \<le> t \<longrightarrow> effEnd g \<le> fst (shrink t w g)) \<and>
     (t < StartTime g \<longrightarrow> snd (shrink t w g) \<le> StartTime g)"
  by (auto simp: shrink_def Let_def effEnd_def)

lemma foldl_shrink:
  "fst w \<le> fst (foldl (shrink t) w gs) \<and> snd (foldl (shrink t) w gs) \<le> snd w \<and>
   (fst w \<le> t \<longrightarrow> fst (foldl (shrink t) w gs) \<le> t) \<and>
   (t < snd w \<longrightarrow> t < snd (foldl (shrink t) w gs)) \<and>
   (\<forall>g \<in> set gs. \<not> Deleted g \<longrightarrow>
      (effEnd g \<le> t \<longrightarrow> effEnd g \<le> fst (foldl (shrink t) w gs)) \<and>
      (t < StartTime g \<longrightarrow> snd (foldl (shrink t) w gs) \<le> StartTime g))"
proof (induction gs rule: rev_induct)
  case Nil
  then show ?case by simp
next
  case (snoc x xs)
  let ?v = "foldl (shrink t) w xs"
  have m: "fst ?v \<le> fst (shrink t ?v x) \<and> snd (shrink t ?v x) \<le> snd ?v"
    by (rule shrink_mono)
  have k: "(fst ?v \<le> t \<longrightarrow> fst (shrink t ?v x) \<le> t) \<and> (t < snd ?v \<longrightarrow> t < snd (shrink t ?v x))"
    by (rule shrink_keeps)
  have c: "\<not> Deleted x \<longrightarrow>
     (effEnd x \<le> t \<longrightarrow> effEnd x \<le> fst (shrink t ?v x)) \<and>
     (t < StartTime x \<longrightarrow> snd (shrink t ?v x) \<le> StartTime x)"
    using shrink_clears [of x t ?v] by blast
  show ?case
    using snoc.IH m k c by (auto intro: order_trans)
qed

lemma length_filter_mset_eq:
  "mset xs = mset ys \<Longrightarrow> length (filter P xs) = length (filter P ys)"
  by (metis mset_filter size_mset)

lemma window_props:
  fixes M :: int
  shows "(\<forall>g \<in> set (ShardGroups rpi). \<not> Deleted g \<longrightarrow>
      (effEnd g \<le> t \<longrightarrow> effEnd g \<le> fst (window M rpi t)) \<and>
      (t < StartTime g \<longrightarrow> snd (window M rpi t) \<le> StartTime g))"
    and "0 < ShardGroupDuration rpi \<Longrightarrow> t \<le> Unix0 M \<Longrightarrow>
      fst (window M rpi t) \<le> t \<and> t < snd (window M rpi t)"
proof -
  let ?d = "ShardGroupDuration rpi"
  let ?s0 = "Truncate t ?d"
  let ?e0 = "(if ?s0 + ?d > Unix0 M then Unix0 (M + 1) else ?s0 + ?d)"
  have w: "window M rpi t = foldl (shrink t) (?s0, ?e0) (ShardGroups rpi)"
    by (simp add: window_def Let_def)
  show "(\<forall>g \<in> set (ShardGroups rpi). \<not> Deleted g \<longrightarrow>
      (effEnd g \<le> t \<longrightarrow> effEnd g \<le> fst (window M rpi t)) \<and>
      (t < StartTime g \<longrightarrow> snd (window M rpi t) \<le> StartTime g))"
    unfolding w using foldl_shrink [of "(?s0, ?e0)" t "ShardGroups rpi"] by blast
  assume d: "0 < ?d" and m: "t \<le> Unix0 M"
  have s: "?s0 \<le> t" using d by (simp add: Truncate_def)
  have "t < ?s0 + ?d" using d by (simp add: Truncate_def)
  then have e: "t < ?e0" using m by (simp add: Unix0_def)
  show "fst (window M rpi t) \<le> t \<and> t < snd (window M rpi t)"
    unfolding w using foldl_shrink [of "(?s0, ?e0)" t "ShardGroups rpi"] s e by simp
qed

lemma accepts_interval:
  assumes "\<not> Deleted g" "Truncated g \<longrightarrow> TruncatedAt g \<le> EndTime g"
  shows "accepts g t \<longleftrightarrow> StartTime g \<le> t \<and> t < effEnd g"
  using assms by (auto simp: accepts_def Contains_def effEnd_def)

lemma ShardGroupByTimestamp_None:
  "ShardGroupByTimestamp rpi t = None \<longleftrightarrow> (\<forall>g \<in> set (ShardGroups rpi). \<not> accepts g t)"
  by (auto simp: ShardGroupByTimestamp_def accepts_def find_None_iff)

lemma newShardGroup_fields:
  fixes M :: int and t :: time
  shows "StartTime (newShardGroup M data rpi t) = fst (window M rpi t)"
    "EndTime (newShardGroup M data rpi t) = snd (window M rpi t)"
    "\<not> Deleted (newShardGroup M data rpi t)"
    "\<not> Truncated (newShardGroup M data rpi t)"
  by (simp_all add: newShardGroup_def Let_def Deleted_def Truncated_def IsZero_def)

lemma new_group_disjoint:
  fixes M :: int
  assumes none: "ShardGroupByTimestamp rpi t = None"
    and tr: "\<forall>g \<in> set (ShardGroups rpi). \<not> Deleted g \<and> Truncated g \<longrightarrow> TruncatedAt g \<le> EndTime g"
    and g: "g \<in> set (ShardGroups rpi)"
    and a: "accepts g t'"
  shows "\<not> accepts (newShardGroup M data rpi t) t'"
proof -
  have nd: "\<not> Deleted g" using a by (simp add: accepts_def)
  have tg: "Truncated g \<longrightarrow> TruncatedAt g \<le> EndTime g" using tr g nd by blast
  have i': "StartTime g \<le> t' \<and> t' < effEnd g" using a accepts_interval [OF nd tg] by simp
  have "\<not> accepts g t" using none g by (simp add: ShardGroupByTimestamp_None)
  then have out: "t < StartTime g \<or> effEnd g \<le> t"
    using accepts_interval [OF nd tg, of t] by auto
  have w: "(effEnd g \<le> t \<longrightarrow> effEnd g \<le> fst (window M rpi t)) \<and>
      (t < StartTime g \<longrightarrow> snd (window M rpi t) \<le> StartTime g)"
    using window_props(1) [of rpi t M] g nd by blast
  from out w i' have "t' < fst (window M rpi t) \<or> snd (window M rpi t) \<le> t'" by auto
  then show ?thesis
    by (auto simp: accepts_def Contains_def newShardGroup_fields)
qed

lemma acceptedOnce_add:
  fixes M :: int
  assumes inv: "acceptedOnce (ShardGroups rpi)"
    and none: "ShardGroupByTimestamp rpi t = None"
    and tr: "\<forall>g \<in> set (ShardGroups rpi). \<not> Deleted g \<and> Truncated g \<longrightarrow> TruncatedAt g \<le> EndTime g"
    and perm: "mset gs' = mset (ShardGroups rpi) + {#newShardGroup M data rpi t#}"
  shows "acceptedOnce gs'"
  unfolding acceptedOnce_def
proof
  fix t'
  let ?new = "newShardGroup M data rpi t"
  have "mset gs' = mset (ShardGroups rpi @ [?new])" using perm by simp
  then have l: "length (accepting gs' t') = length (accepting (ShardGroups rpi @ [?new]) t')"
    unfolding accepting_def by (rule length_filter_mset_eq)
  show "length (accepting gs' t') \<le> 1"
  proof (cases "accepts ?new t'")
    case True
    have "\<forall>g \<in> set (ShardGroups rpi). \<not> accepts g t'"
      using new_group_disjoint [OF none tr, of _ t' M data] True by blast
    then have "accepting (ShardGroups rpi) t' = []"
      by (simp add: accepting_def)
    then show ?thesis using l True by (simp add: accepting_def)
  next
    case False
    have "length (accepting (ShardGroups rpi) t') \<le> 1" using inv by (simp add: acceptedOnce_def)
    then show ?thesis using l False by (simp add: accepting_def)
  qed
qed

lemma CreateShardGroup_no_nodes:
  "DataNodes data = [] \<Longrightarrow> snd (CreateShardGroup M srt data database policy t) = data"
  by (auto simp: CreateShardGroup_def)

lemma CreateShardGroup_covered:
  "RetentionPolicy data database policy = Inr (Some rpi) \<Longrightarrow> ShardGroupByTimestamp rpi t \<noteq> None \<Longrightarrow>
     snd (CreateShardGroup M srt data database policy t) = data"
  by (auto simp: CreateShardGroup_def)

text \<open>
  Claim C1, as amended. Let the policy be found, let at most one of its groups accept any
  point-time (a live group accepts the times from \<open>StartTime\<close> up to \<open>EndTime\<close>, and up to
  \<open>TruncatedAt\<close> when it is truncated: the test of \<open>ShardGroupByTimestamp\<close>), and let no live
  truncated group be truncated after its end. Then the same holds for the groups of the
  policy after \<open>CreateShardGroup\<close>. When a group is created, it is live, its interval is
  the window shrunk against the existing groups, it lies before the start or after the
  effective end of every existing live group, and it holds the timestamp when the shard
  group duration is positive and the timestamp is not after \<open>MaxNanoTime\<close>.
\<close>

theorem CreateShardGroup_accepted_once:
  fixes M :: int and t :: time
  assumes rp: "RetentionPolicy data database policy = Inr (Some rpi)"
    and srt: "\<forall>gs. mset (srt gs) = mset gs"
    and inv: "acceptedOnce (ShardGroups rpi)"
    and tr: "\<forall>g \<in> set (ShardGroups rpi). \<not> Deleted g \<and> Truncated g \<longrightarrow> TruncatedAt g \<le> EndTime g"
  shows "\<exists>rpi'.
     RetentionPolicy (snd (CreateShardGroup M srt data database policy t)) database policy
       = Inr (Some rpi') \<and>
     acceptedOnce (ShardGroups rpi') \<and>
     (DataNodes data \<noteq> [] \<and> ShardGroupByTimestamp rpi t = None \<longrightarrow>
        (\<exists>sgi. mset (ShardGroups rpi') = mset (ShardGroups rpi) + {#sgi#} \<and>
           \<not> Deleted sgi \<and> \<not> Truncated sgi \<and>
           (StartTime sgi, EndTime sgi) = window M rpi t \<and>
           (\<forall>g \<in> set (ShardGroups rpi). \<not> Deleted g \<longrightarrow>
              effEnd g \<le> StartTime sgi \<or> EndTime sgi \<le> StartTime g) \<and>
           (0 < ShardGroupDuration rpi \<and> t \<le> Unix0 M \<longrightarrow>
              StartTime sgi \<le> t \<and> t < EndTime sgi)))"
proof (cases "DataNodes data \<noteq> [] \<and> ShardGroupByTimestamp rpi t = None")
  case False
  then have "snd (CreateShardGroup M srt data database policy t) = data"
    using CreateShardGroup_no_nodes [of data M srt database policy t]
      CreateShardGroup_covered [OF rp, of t M srt]
    by auto
  then show ?thesis using rp inv False by auto
next
  case True
  then have nodes: "DataNodes data \<noteq> []" and none: "ShardGroupByTimestamp rpi t = None"
    by simp_all
  let ?sgi = "newShardGroup M data rpi t"
  let ?f = "\<lambda>p. p\<lparr>ShardGroups := srt (ShardGroups p @ [?sgi])\<rparr>"
  let ?res = "CreateShardGroup M srt data database policy t"
  have res: "?res = (None, setPolicy database policy ?f
              (data\<lparr>MaxShardGroupID := MaxShardGroupID data + 1,
                    MaxShardID := MaxShardID data + of_nat (length (Shards ?sgi))\<rparr>))"
    by (rule CreateShardGroup_creates [OF nodes rp none srt])
  have c1: "RetentionPolicy (snd ?res) database policy = Inr (Some (?f rpi))"
    unfolding res snd_conv
    by (rule setPolicy_lookup) (simp_all add: RetentionPolicy_counters rp)
  have c2: "mset (ShardGroups (?f rpi)) = mset (ShardGroups rpi) + {#?sgi#}"
    using srt by simp
  have c3: "acceptedOnce (ShardGroups (?f rpi))"
    by (rule acceptedOnce_add [OF inv none tr c2])
  have c4: "(StartTime ?sgi, EndTime ?sgi) = window M rpi t"
    by (simp add: newShardGroup_fields)
  have c5: "\<forall>g \<in> set (ShardGroups rpi). \<not> Deleted g \<longrightarrow>
              effEnd g \<le> StartTime ?sgi \<or> EndTime ?sgi \<le> StartTime g"
  proof (intro ballI impI)
    fix g assume g: "g \<in> set (ShardGroups rpi)" and nd: "\<not> Deleted g"
    have tg: "Truncated g \<longrightarrow> TruncatedAt g \<le> EndTime g" using tr g nd by blast
    have "\<not> accepts g t" using none g by (simp add: ShardGroupByTimestamp_None)
    then have out: "t < StartTime g \<or> effEnd g \<le> t"
      using accepts_interval [OF nd tg, of t] by auto
    have w: "(effEnd g \<le> t \<longrightarrow> effEnd g \<le> fst (window M rpi t)) \<and>
      (t < StartTime g \<longrightarrow> snd (window M rpi t) \<le> StartTime g)"
      using window_props(1) [of rpi t M] g nd by blast
    from out w show "effEnd g \<le> StartTime ?sgi \<or> EndTime ?sgi \<le> StartTime g"
      by (auto simp: newShardGroup_fields)
  qed
  have c6: "0 < ShardGroupDuration rpi \<and> t \<le> Unix0 M \<longrightarrow> StartTime ?sgi \<le> t \<and> t < EndTime ?sgi"
    using window_props(2) [of rpi t M] by (simp add: newShardGroup_fields)
  have c7: "\<not> Deleted ?sgi \<and> \<not> Truncated ?sgi" by (simp add: newShardGroup_fields)
  show ?thesis using c1 c2 c3 c4 c5 c6 c7 by blast
qed

lemma ex_eval:
  "allShardGroups (snd (CreateShardGroup exampleMaxNanoTime insertionSort
       (exampleData exampleNodes 1 truncatedGroups) ''db0'' ''rp0'' 7)) =
     truncatedGroups @
     [\<lparr>ShardGroupInfo.ID = 3, StartTime = 5, EndTime = 10, DeletedAt = 0,
       Shards = [\<lparr>ShardInfo.ID = 4, Owners = [\<lparr>NodeID = 3\<rparr>]\<rparr>,
                 \<lparr>ShardInfo.ID = 5, Owners = [\<lparr>NodeID = 1\<rparr>]\<rparr>,
                 \<lparr>ShardInfo.ID = 6, Owners = [\<lparr>NodeID = 2\<rparr>]\<rparr>],
       TruncatedAt = 0\<rparr>]"
  by code_simp

theorem CreateShardGroup_accepted_once_witness:
  "\<exists>rpi'.
     RetentionPolicy (snd (CreateShardGroup exampleMaxNanoTime insertionSort
        (exampleData exampleNodes 1 truncatedGroups) ''db0'' ''rp0'' 7)) ''db0'' ''rp0''
       = Inr (Some rpi') \<and>
     acceptedOnce (ShardGroups rpi') \<and>
     (\<exists>sgi. mset (ShardGroups rpi') = mset truncatedGroups + {#sgi#} \<and>
        StartTime sgi \<le> 7 \<and> 7 < EndTime sgi)"
proof -
  let ?rpi = "\<lparr>RetentionPolicyInfo.Name = ''rp0'', ReplicaN = 1, Duration = 0,
              ShardGroupDuration = 10, ShardGroups = truncatedGroups, Subscriptions = []\<rparr>"
  let ?data = "exampleData exampleNodes 1 truncatedGroups"
  have h1: "RetentionPolicy ?data ''db0'' ''rp0'' = Inr (Some ?rpi)"
    by (simp add: exampleData_def RetentionPolicy_def Database_def)
  have h2: "\<forall>gs. mset (insertionSort gs) = mset gs" by (simp add: mset_insertionSort)
  have h3: "acceptedOnce (ShardGroups ?rpi)"
    by (simp add: acceptedOnce_def accepting_def truncatedGroups_def)
  have h4: "\<forall>g \<in> set (ShardGroups ?rpi). \<not> Deleted g \<and> Truncated g \<longrightarrow> TruncatedAt g \<le> EndTime g"
    by (simp add: truncatedGroups_def)
  have p1: "DataNodes ?data \<noteq> []" by (simp add: exampleData_def exampleNodes_def)
  have p2: "ShardGroupByTimestamp ?rpi 7 = None"
    by (simp add: ShardGroupByTimestamp_def truncatedGroups_def Contains_def Truncated_def IsZero_def)
  have p3: "0 < ShardGroupDuration ?rpi \<and> 7 \<le> Unix0 exampleMaxNanoTime"
    by (simp add: Unix0_def unixToInternal_def exampleMaxNanoTime_def)
  from CreateShardGroup_accepted_once [OF h1 h2 h3 h4, of exampleMaxNanoTime 7] p1 p2 p3
  show ?thesis by auto
qed

text \<open>
  The claim read on the intervals from \<open>StartTime\<close> to \<open>EndTime\<close> fails: a store whose only
  group covers 0 to 10 and is truncated at 5 has no time in two groups; the group created
  for the time 7 covers 5 to 10, and 7 is then contained in both.
\<close>

theorem CreateShardGroup_overlap_counterexample:
  "containedOnce truncatedGroups \<and>
   DataNodes (exampleData exampleNodes 1 truncatedGroups) \<noteq> [] \<and>
   length (containing (allShardGroups (snd (CreateShardGroup exampleMaxNanoTime insertionSort
       (exampleData exampleNodes 1 truncatedGroups) ''db0'' ''rp0'' 7))) 7) = 2 \<and>
   \<not> containedOnce (allShardGroups (snd (CreateShardGroup exampleMaxNanoTime insertionSort
       (exampleData exampleNodes 1 truncatedGroups) ''db0'' ''rp0'' 7)))"
proof -
  have a: "containedOnce truncatedGroups"
    by (simp add: containedOnce_def containing_def truncatedGroups_def)
  have b: "DataNodes (exampleData exampleNodes 1 truncatedGroups) \<noteq> []"
    by (simp add: exampleData_def exampleNodes_def)
  have c: "length (containing (allShardGroups (snd (CreateShardGroup exampleMaxNanoTime insertionSort
       (exampleData exampleNodes 1 truncatedGroups) ''db0'' ''rp0'' 7))) 7) = 2"
    unfolding ex_eval
    by (simp add: containing_def truncatedGroups_def Contains_def Deleted_def IsZero_def)
  have d: "\<not> containedOnce (allShardGroups (snd (CreateShardGroup exampleMaxNanoTime insertionSort
       (exampleData exampleNodes 1 truncatedGroups) ''db0'' ''rp0'' 7)))"
  proof
    assume "containedOnce (allShardGroups (snd (CreateShardGroup exampleMaxNanoTime insertionSort
       (exampleData exampleNodes 1 truncatedGroups) ''db0'' ''rp0'' 7)))"
    then have "length (containing (allShardGroups (snd (CreateShardGroup exampleMaxNanoTime insertionSort
       (exampleData exampleNodes 1 truncatedGroups) ''db0'' ''rp0'' 7))) 7) \<le> 1"
      unfolding containedOnce_def by blast
    with c show False by simp
  qed
  show ?thesis using a b c d by blast
qed


section \<open>Properties of the shard mapper\<close>

lemma searchLoop_props:
  "i \<le> j \<Longrightarrow>
     i \<le> searchLoop f i j \<and> searchLoop f i j \<le> j \<and>
     (searchLoop f i j < j \<longrightarrow> f (searchLoop f i j)) \<and>
     (i < searchLoop f i j \<longrightarrow> \<not> f (searchLoop f i j - 1))"
proof (induction f i j rule: searchLoop.induct)
  case (1 f i j)
  show ?case
  proof (cases "i < j")
    case False
    with "1.prems" show ?thesis by (subst (1 2 3 4 5 6) searchLoop.simps) simp
  next
    case True
    let ?h = "(i + j) div 2"
    have h: "i \<le> ?h" "?h < j" using True by auto
    show ?thesis
    proof (cases "f ?h")
      case False
      have eq: "searchLoop f i j = searchLoop f (?h + 1) j"
        using True False by (subst searchLoop.simps) (simp add: Let_def)
      have "?h + 1 \<le> j" using h by simp
      from "1.IH"(1) [OF True refl False this]
      have ih: "?h + 1 \<le> searchLoop f (?h + 1) j" "searchLoop f (?h + 1) j \<le> j"
        "searchLoop f (?h + 1) j < j \<longrightarrow> f (searchLoop f (?h + 1) j)"
        "?h + 1 < searchLoop f (?h + 1) j \<longrightarrow> \<not> f (searchLoop f (?h + 1) j - 1)"
        by simp_all
      have "\<not> f (searchLoop f (?h + 1) j - 1)"
      proof (cases "?h + 1 < searchLoop f (?h + 1) j")
        case True
        then show ?thesis using ih(4) by simp
      next
        case False
        then have "searchLoop f (?h + 1) j = ?h + 1" using ih(1) by simp
        then show ?thesis using \<open>\<not> f ?h\<close> by simp
      qed
      then show ?thesis unfolding eq using ih h(1) by auto
    next
      case fh: True
      have eq: "searchLoop f i j = searchLoop f i ?h"
        using True fh by (subst searchLoop.simps) (simp add: Let_def)
      from "1.IH"(2) [OF True refl _ h(1)] fh
      have ih: "i \<le> searchLoop f i ?h" "searchLoop f i ?h \<le> ?h"
        "searchLoop f i ?h < ?h \<longrightarrow> f (searchLoop f i ?h)"
        "i < searchLoop f i ?h \<longrightarrow> \<not> f (searchLoop f i ?h - 1)"
        by simp_all
      have "f (searchLoop f i ?h)"
      proof (cases "searchLoop f i ?h < ?h")
        case True
        then show ?thesis using ih(3) by simp
      next
        case False
        then have "searchLoop f i ?h = ?h" using ih(2) by simp
        then show ?thesis using fh by simp
      qed
      then show ?thesis unfolding eq using ih h(2) by auto
    qed
  qed
qed

lemma Search_props:
  "Search n f \<le> n \<and> (Search n f < n \<longrightarrow> f (Search n f)) \<and>
   (0 < Search n f \<longrightarrow> \<not> f (Search n f - 1))"
  using searchLoop_props [of 0 n f] by (simp add: Search_def)

lemma Search_least:
  assumes "\<forall>a b. a \<le> b \<and> b < n \<and> f a \<longrightarrow> f b"
  shows "\<forall>k < Search n f. \<not> f k"
proof (intro allI impI)
  fix k assume k: "k < Search n f"
  then have "0 < Search n f" by simp
  with Search_props [of n f] have nf: "\<not> f (Search n f - 1)" and le: "Search n f \<le> n" by simp_all
  show "\<not> f k"
  proof
    assume "f k"
    moreover have "k \<le> Search n f - 1" "Search n f - 1 < n" using k le by simp_all
    ultimately have "f (Search n f - 1)" using assms by blast
    with nf show False by simp
  qed
qed

lemma Less_iff:
  "ShardGroupInfos_Less a b \<longleftrightarrow>
     effEnd a < effEnd b \<or> (effEnd a = effEnd b \<and> StartTime a < StartTime b)"
  by (auto simp: ShardGroupInfos_Less_def effEnd_def Let_def)

lemma set_insertGroup: "set (insertGroup g hs) = insert g (set hs)"
  by (induction hs) auto

lemma sorted_insertGroup:
  "sorted_wrt (\<lambda>a b. \<not> ShardGroupInfos_Less b a) hs \<Longrightarrow>
   sorted_wrt (\<lambda>a b. \<not> ShardGroupInfos_Less b a) (insertGroup g hs)"
proof (induction hs)
  case Nil
  then show ?case by simp
next
  case (Cons h hs)
  show ?case
  proof (cases "ShardGroupInfos_Less h g")
    case True
    then have "\<not> ShardGroupInfos_Less g h" by (auto simp: Less_iff)
    with Cons True show ?thesis by (auto simp: set_insertGroup)
  next
    case False
    have "\<forall>x \<in> set hs. \<not> ShardGroupInfos_Less x g"
    proof
      fix x assume "x \<in> set hs"
      with Cons.prems have "\<not> ShardGroupInfos_Less x h" by simp
      with False show "\<not> ShardGroupInfos_Less x g" by (auto simp: Less_iff)
    qed
    with Cons.prems False show ?thesis by simp
  qed
qed

lemma sortContract_insertionSort: "sortContract insertionSort"
proof -
  have "sorted_wrt (\<lambda>a b. \<not> ShardGroupInfos_Less b a) (insertionSort gs)" for gs
    by (induction gs) (auto simp: insertionSort_def sorted_insertGroup)
  then show ?thesis by (simp add: sortContract_def mset_insertionSort)
qed

lemma find_Some_set: "find P xs = Some x \<Longrightarrow> x \<in> set xs \<and> P x"
  by (auto simp: find_Some_iff)

text \<open>
  Claim C6, as amended. On a list that is not empty \<open>ShardGroupAt\<close> sorts the groups when
  the list is marked (by effective end, then by start, under the contract of
  \<open>sort.Sort\<close>, which promises no stability) and leaves the caller's list in that order.
  The binary search probes \<open>EndTime\<close>, not the effective end: the index found is at most
  the length, the group at it ends after \<open>t\<close>, the group before it does not, and it is
  the smallest such index when the end times ascend along the list, as they do when no
  group is truncated. If the index is the length or the group at it starts after \<open>t\<close>,
  the result is \<open>nil\<close> when \<open>t\<close> lies outside \<open>earliest\<close> to \<open>latest\<close> and the first group that
  \<open>Contains\<close> \<open>t\<close> otherwise; else it is the group at the index. A group that is returned
  is in the list and contains \<open>t\<close>.
\<close>

theorem ShardGroupAt_search:
  fixes t :: time
  assumes ne: "items l \<noteq> []" and srt: "sortContract srt"
  defines "its \<equiv> (if needsSort l then srt (items l) else items l)"
  defines "idx \<equiv> Search (length its) (\<lambda>i. EndTime (its ! i) > t)"
  shows "snd (ShardGroupAt srt l t) = l\<lparr>items := its\<rparr> \<and>
    mset its = mset (items l) \<and>
    (needsSort l \<longrightarrow>
       sorted_wrt (\<lambda>a b. effEnd a < effEnd b \<or> (effEnd a = effEnd b \<and> StartTime a \<le> StartTime b)) its) \<and>
    idx \<le> length its \<and>
    (idx < length its \<longrightarrow> EndTime (its ! idx) > t) \<and>
    (0 < idx \<longrightarrow> \<not> EndTime (its ! (idx - 1)) > t) \<and>
    ((\<forall>i j. i \<le> j \<and> j < length its \<longrightarrow> EndTime (its ! i) \<le> EndTime (its ! j)) \<longrightarrow>
       (\<forall>i < idx. \<not> EndTime (its ! i) > t)) \<and>
    fst (ShardGroupAt srt l t) =
      (if idx = length its \<or> t < StartTime (its ! idx) then
         (if t < earliest l \<or> t > latest l then None else find (\<lambda>sgi. Contains sgi t) its)
       else Some (its ! idx)) \<and>
    (\<forall>g. fst (ShardGroupAt srt l t) = Some g \<longrightarrow> g \<in> set (items l) \<and> Contains g t)"
proof -
  let ?f = "\<lambda>i. EndTime (its ! i) > t"
  have ms: "mset its = mset (items l)" using srt by (simp add: its_def sortContract_def)
  then have st: "set its = set (items l)" by (metis set_mset_mset)
  have srtd: "needsSort l \<longrightarrow>
       sorted_wrt (\<lambda>a b. effEnd a < effEnd b \<or> (effEnd a = effEnd b \<and> StartTime a \<le> StartTime b)) its"
  proof
    assume "needsSort l"
    then have "sorted_wrt (\<lambda>a b. \<not> ShardGroupInfos_Less b a) its"
      using srt by (simp add: its_def sortContract_def)
    then show "sorted_wrt (\<lambda>a b. effEnd a < effEnd b \<or> (effEnd a = effEnd b \<and> StartTime a \<le> StartTime b)) its"
      by (rule sorted_wrt_mono_rel [rotated]) (auto simp: Less_iff)
  qed
  have sp: "idx \<le> length its \<and> (idx < length its \<longrightarrow> ?f idx) \<and> (0 < idx \<longrightarrow> \<not> ?f (idx - 1))"
    unfolding idx_def by (rule Search_props)
  have least: "(\<forall>i j. i \<le> j \<and> j < length its \<longrightarrow> EndTime (its ! i) \<le> EndTime (its ! j)) \<longrightarrow>
       (\<forall>i < idx. \<not> EndTime (its ! i) > t)"
  proof
    assume m: "\<forall>i j. i \<le> j \<and> j < length its \<longrightarrow> EndTime (its ! i) \<le> EndTime (its ! j)"
    have "\<forall>a b. a \<le> b \<and> b < length its \<and> ?f a \<longrightarrow> ?f b"
    proof (intro allI impI)
      fix a b assume ab: "a \<le> b \<and> b < length its \<and> ?f a"
      with m have "EndTime (its ! a) \<le> EndTime (its ! b)" by blast
      with ab show "?f b" by simp
    qed
    from Search_least [OF this] show "\<forall>i < idx. \<not> EndTime (its ! i) > t"
      by (simp add: idx_def)
  qed
  have res: "ShardGroupAt srt l t =
      (if idx = length its \<or> t < StartTime (its ! idx) then
         (if t < earliest l \<or> t > latest l then (None, l\<lparr>items := its\<rparr>)
          else (find (\<lambda>sgi. Contains sgi t) its, l\<lparr>items := its\<rparr>))
       else (Some (its ! idx), l\<lparr>items := its\<rparr>))"
    using ne by (simp add: ShardGroupAt_def Let_def its_def idx_def)
  have r1: "snd (ShardGroupAt srt l t) = l\<lparr>items := its\<rparr>" by (simp add: res)
  have r2: "fst (ShardGroupAt srt l t) =
      (if idx = length its \<or> t < StartTime (its ! idx) then
         (if t < earliest l \<or> t > latest l then None else find (\<lambda>sgi. Contains sgi t) its)
       else Some (its ! idx))"
    by (simp add: res)
  have r3: "\<forall>g. fst (ShardGroupAt srt l t) = Some g \<longrightarrow> g \<in> set (items l) \<and> Contains g t"
  proof (intro allI impI)
    fix g assume g: "fst (ShardGroupAt srt l t) = Some g"
    show "g \<in> set (items l) \<and> Contains g t"
    proof (cases "idx = length its \<or> t < StartTime (its ! idx)")
      case True
      have "fst (ShardGroupAt srt l t) =
          (if t < earliest l \<or> t > latest l then None else find (\<lambda>sgi. Contains sgi t) its)"
        by (simp only: r2 True if_True)
      with g have "find (\<lambda>sgi. Contains sgi t) its = Some g"
        by (simp split: if_splits)
      from find_Some_set [OF this] have "g \<in> set its" "Contains g t" by simp_all
      then show ?thesis by (simp add: st)
    next
      case False
      have "fst (ShardGroupAt srt l t) = Some (its ! idx)"
        by (simp only: r2 False if_False)
      with g have gi: "g = its ! idx" by simp
      from False sp have i: "idx < length its" and e: "EndTime (its ! idx) > t" by simp_all
      from False have b: "\<not> t < StartTime (its ! idx)" by simp
      have "g \<in> set its" unfolding gi using i by (rule nth_mem)
      moreover have "Contains g t" unfolding gi Contains_def using b e by simp
      ultimately show ?thesis by (simp add: st)
    qed
  qed
  from sp have sp1: "idx \<le> length its" and sp2: "idx < length its \<longrightarrow> EndTime (its ! idx) > t"
    and sp3: "0 < idx \<longrightarrow> \<not> EndTime (its ! (idx - 1)) > t"
    by simp_all
  show ?thesis
    by (intro conjI) (rule r1 ms srtd sp1 sp2 sp3 least r2 r3)+
qed

theorem ShardGroupAt_search_witness:
  "fst (ShardGroupAt insertionSort overlappingList 7) =
     Some \<lparr>ShardGroupInfo.ID = 1, StartTime = 0, EndTime = 10, DeletedAt = 0,
        Shards = [\<lparr>ShardInfo.ID = 1, Owners = [\<lparr>NodeID = 1\<rparr>]\<rparr>], TruncatedAt = 5\<rparr> \<and>
   Contains \<lparr>ShardGroupInfo.ID = 1, StartTime = 0, EndTime = 10, DeletedAt = 0,
        Shards = [\<lparr>ShardInfo.ID = 1, Owners = [\<lparr>NodeID = 1\<rparr>]\<rparr>], TruncatedAt = 5\<rparr> 7 \<and>
   items (snd (ShardGroupAt insertionSort overlappingList 7)) = insertionSort (items overlappingList)"
proof -
  have ne: "items overlappingList \<noteq> []" by (simp add: overlappingList_def Add_def)
  have ns: "needsSort overlappingList" by (simp add: overlappingList_def Add_def)
  have ev: "fst (ShardGroupAt insertionSort overlappingList 7) =
     Some \<lparr>ShardGroupInfo.ID = 1, StartTime = 0, EndTime = 10, DeletedAt = 0,
        Shards = [\<lparr>ShardInfo.ID = 1, Owners = [\<lparr>NodeID = 1\<rparr>]\<rparr>], TruncatedAt = 5\<rparr>"
    by code_simp
  from ShardGroupAt_search [OF ne sortContract_insertionSort, of 7] ev ns
  show ?thesis by simp
qed

text \<open>
  The search as the claim words it, on the effective end, gives another group: with a
  group from 0 to 10 truncated at 5 and a group from 5 to 10, the source returns the
  truncated group for the time 7, the effective end selects the second group.
\<close>

theorem ShardGroupAt_search_counterexample:
  "fst (ShardGroupAt insertionSort overlappingList 7) \<noteq> ShardGroupAt_specified insertionSort overlappingList 7 \<and>
   map_option ShardGroupInfo.ID (fst (ShardGroupAt insertionSort overlappingList 7)) = Some 1 \<and>
   map_option ShardGroupInfo.ID (ShardGroupAt_specified insertionSort overlappingList 7) = Some 2"
  by code_simp

lemma ShardGroupAt_items:
  assumes "\<forall>gs. mset (srt gs) = mset gs"
  shows "mset (items (snd (ShardGroupAt srt l t))) = mset (items l)"
    and "earliest (snd (ShardGroupAt srt l t)) = earliest l"
    and "latest (snd (ShardGroupAt srt l t)) = latest l"
    and "needsSort (snd (ShardGroupAt srt l t)) = needsSort l"
  using assms by (simp_all add: ShardGroupAt_def Let_def)

lemma ShardGroupAt_Some:
  fixes t :: time
  assumes srt: "\<forall>gs. mset (srt gs) = mset gs"
    and g: "fst (ShardGroupAt srt l t) = Some g"
  shows "g \<in> set (items l) \<and> Contains g t"
proof -
  define its where "its = (if needsSort l then srt (items l) else items l)"
  define idx where "idx = Search (length its) (\<lambda>i. EndTime (its ! i) > t)"
  have ne: "items l \<noteq> []" using g by (auto simp: ShardGroupAt_def)
  have "mset its = mset (items l)" using srt by (simp add: its_def)
  then have st: "set its = set (items l)" by (metis set_mset_mset)
  have sp: "idx \<le> length its \<and> (idx < length its \<longrightarrow> EndTime (its ! idx) > t)"
    using Search_props [of "length its" "\<lambda>i. EndTime (its ! i) > t"] by (simp add: idx_def)
  have r2: "fst (ShardGroupAt srt l t) =
      (if idx = length its \<or> t < StartTime (its ! idx) then
         (if t < earliest l \<or> t > latest l then None else find (\<lambda>sgi. Contains sgi t) its)
       else Some (its ! idx))"
    using ne by (simp add: ShardGroupAt_def Let_def its_def idx_def)
  show ?thesis
  proof (cases "idx = length its \<or> t < StartTime (its ! idx)")
    case True
    have "fst (ShardGroupAt srt l t) =
        (if t < earliest l \<or> t > latest l then None else find (\<lambda>sgi. Contains sgi t) its)"
      by (simp only: r2 True if_True)
    with g have "find (\<lambda>sgi. Contains sgi t) its = Some g"
      by (simp split: if_splits)
    from find_Some_set [OF this] have "g \<in> set its" "Contains g t" by simp_all
    then show ?thesis by (simp add: st)
  next
    case False
    have "fst (ShardGroupAt srt l t) = Some (its ! idx)"
      by (simp only: r2 False if_False)
    with g have gi: "g = its ! idx" by simp
    from False sp have i: "idx < length its" and e: "EndTime (its ! idx) > t" by simp_all
    from False have b: "\<not> t < StartTime (its ! idx)" by simp
    have "g \<in> set its" unfolding gi using i by (rule nth_mem)
    moreover have "Contains g t" unfolding gi Contains_def using b e by simp
    ultimately show ?thesis by (simp add: st)
  qed
qed

lemma Covers_items:
  assumes "\<forall>gs. mset (srt gs) = mset gs"
  shows "mset (items (snd (Covers srt l t))) = mset (items l)"
  using ShardGroupAt_items(1) [OF assms, of l t] by (simp add: Covers_def)

lemma set_items_Add: "set (items (Add l sg)) = insert sg (set (items l))"
  by (simp add: Add_def)

lemma createLoop_items:
  assumes srt: "\<forall>gs. mset (srt gs) = mset gs"
    and q: "\<forall>p \<in> set ps. \<forall>k g. \<not> Time p < tmin \<and> mc_CreateShardGroup mc k db rp (Time p) = Inr (Some g) \<longrightarrow> Q g"
  shows "createLoop srt mc db rp tmin k l ps = Inr l' \<Longrightarrow> \<forall>g \<in> set (items l). Q g \<Longrightarrow>
     \<forall>g \<in> set (items l'). Q g"
  using q
proof (induction ps arbitrary: k l)
  case Nil
  then show ?case by simp
next
  case (Cons p ps)
  have q': "\<forall>p \<in> set ps. \<forall>k g. \<not> Time p < tmin \<and> mc_CreateShardGroup mc k db rp (Time p) = Inr (Some g) \<longrightarrow> Q g"
    using Cons.prems(3) by (meson list.set_intros(2))
  have cov: "set (items (snd (Covers srt l (Time p)))) = set (items l)"
    using Covers_items [OF srt, of l "Time p"] by (metis set_mset_mset)
  show ?case
  proof (cases "Time p < tmin")
    case True
    with Cons.prems(1) have "createLoop srt mc db rp tmin k l ps = Inr l'" by simp
    from Cons.IH [OF this Cons.prems(2) q'] show ?thesis .
  next
    case old: False
    show ?thesis
    proof (cases "fst (Covers srt l (Time p))")
      case True
      with old Cons.prems(1)
      have "createLoop srt mc db rp tmin k (snd (Covers srt l (Time p))) ps = Inr l'" by simp
      from Cons.IH [OF this _ q'] Cons.prems(2) cov show ?thesis by simp
    next
      case False
      with old Cons.prems(1) obtain sg where
        sg: "mc_CreateShardGroup mc k db rp (Time p) = Inr (Some sg)"
        and rec: "createLoop srt mc db rp tmin (Suc k) (Add (snd (Covers srt l (Time p))) sg) ps = Inr l'"
        by (auto split: sum.splits option.splits)
      have "Q sg" using Cons.prems(3) old sg by auto
      then have "\<forall>g \<in> set (items (Add (snd (Covers srt l (Time p))) sg)). Q g"
        using Cons.prems(2) cov by (simp add: set_items_Add)
      from Cons.IH [OF rec this q'] show ?thesis .
    qed
  qed
qed

lemma createLoop_all_old:
  "\<forall>p \<in> set ps. Time p < tmin \<Longrightarrow> createLoop srt mc db rp tmin k l ps = Inr l"
  by (induction ps) auto

lemma mapGet_mapUpdate: "mapGet (mapUpdate k v kvs) k' = (if k' = k then Some v else mapGet kvs k')"
  by (induction kvs) (auto simp: mapGet_def)

lemma pointsOf_MapPoint:
  "pointsOf (MapPoint m sh p) sid =
     (if sid = ShardInfo.ID sh then pointsOf m sid @ [p] else pointsOf m sid)"
  by (simp add: pointsOf_def MapPoint_def Let_def mapGet_mapUpdate)

lemma Dropped_MapPoint: "sm_Dropped (MapPoint m sh p) = sm_Dropped m"
  by (simp add: MapPoint_def Let_def)

lemma ShardFor_mem: "ShardFor sg p = Some sh \<Longrightarrow> sh \<in> set (Shards sg)"
  by (auto simp: ShardFor_def split: if_splits)

lemma chosen_Cons:
  "chosen (p # ps) (d # dec) d' = (if d = d' then p # chosen ps dec d' else chosen ps dec d')"
  by (simp add: chosen_def)

lemma mapLoop_decisions:
  assumes srt: "\<forall>gs. mset (srt gs) = mset gs"
  shows "mapLoop srt l m stats ps = Inr (m', stats') \<Longrightarrow>
    \<exists>dec. length dec = length ps \<and>
      sm_Dropped m' = sm_Dropped m @ chosen ps dec None \<and>
      (\<forall>sid. pointsOf m' sid = pointsOf m sid @ chosen ps dec (Some sid)) \<and>
      WriteDropped stats' = WriteDropped stats + int (length (chosen ps dec None)) \<and>
      (\<forall>i < length ps. \<forall>sid. dec ! i = Some sid \<longrightarrow>
         (\<exists>g \<in> set (items l). Contains g (Time (ps ! i)) \<and>
            (\<exists>sh \<in> set (Shards g). ShardInfo.ID sh = sid)))"
proof (induction ps arbitrary: l m stats)
  case Nil
  then show ?case by (simp add: chosen_def)
next
  case (Cons p ps)
  let ?l2 = "snd (ShardGroupAt srt l (Time p))"
  have st: "set (items ?l2) = set (items l)"
    using ShardGroupAt_items(1) [OF srt, of l "Time p"] by (metis set_mset_mset)
  show ?case
  proof (cases "fst (ShardGroupAt srt l (Time p))")
    case None
    let ?m2 = "m\<lparr>sm_Dropped := sm_Dropped m @ [p]\<rparr>"
    let ?s2 = "stats\<lparr>WriteDropped := WriteDropped stats + 1\<rparr>"
    from Cons.prems None have "mapLoop srt ?l2 ?m2 ?s2 ps = Inr (m', stats')" by simp
    from Cons.IH [OF this] obtain dec where d:
      "length dec = length ps"
      "sm_Dropped m' = sm_Dropped ?m2 @ chosen ps dec None"
      "\<forall>sid. pointsOf m' sid = pointsOf ?m2 sid @ chosen ps dec (Some sid)"
      "WriteDropped stats' = WriteDropped ?s2 + int (length (chosen ps dec None))"
      "\<forall>i < length ps. \<forall>sid. dec ! i = Some sid \<longrightarrow>
         (\<exists>g \<in> set (items ?l2). Contains g (Time (ps ! i)) \<and>
            (\<exists>sh \<in> set (Shards g). ShardInfo.ID sh = sid))"
      by blast
    let ?dec = "None # dec"
    have 1: "length ?dec = length (p # ps)" using d(1) by simp
    have 2: "sm_Dropped m' = sm_Dropped m @ chosen (p # ps) ?dec None"
      using d(2) by (simp add: chosen_Cons)
    have 3: "\<forall>sid. pointsOf m' sid = pointsOf m sid @ chosen (p # ps) ?dec (Some sid)"
      using d(3) by (simp add: chosen_Cons pointsOf_def)
    have 4: "WriteDropped stats' = WriteDropped stats + int (length (chosen (p # ps) ?dec None))"
      using d(4) by (simp add: chosen_Cons)
    have 5: "\<forall>i < length (p # ps). \<forall>sid. ?dec ! i = Some sid \<longrightarrow>
         (\<exists>g \<in> set (items l). Contains g (Time ((p # ps) ! i)) \<and>
            (\<exists>sh \<in> set (Shards g). ShardInfo.ID sh = sid))"
    proof (intro allI impI)
      fix i sid assume i: "i < length (p # ps)" and s: "?dec ! i = Some sid"
      then obtain j where j: "i = Suc j" by (cases i) auto
      with i s d(5) st show "\<exists>g \<in> set (items l). Contains g (Time ((p # ps) ! i)) \<and>
            (\<exists>sh \<in> set (Shards g). ShardInfo.ID sh = sid)" by simp
    qed
    show ?thesis using 1 2 3 4 5 by blast
  next
    case (Some sg)
    with Cons.prems obtain sh where sh: "ShardFor sg p = Some sh"
      and rec: "mapLoop srt ?l2 (MapPoint m sh p) stats ps = Inr (m', stats')"
      by (auto split: option.splits)
    from Cons.IH [OF rec] obtain dec where d:
      "length dec = length ps"
      "sm_Dropped m' = sm_Dropped (MapPoint m sh p) @ chosen ps dec None"
      "\<forall>sid. pointsOf m' sid = pointsOf (MapPoint m sh p) sid @ chosen ps dec (Some sid)"
      "WriteDropped stats' = WriteDropped stats + int (length (chosen ps dec None))"
      "\<forall>i < length ps. \<forall>sid. dec ! i = Some sid \<longrightarrow>
         (\<exists>g \<in> set (items ?l2). Contains g (Time (ps ! i)) \<and>
            (\<exists>sh \<in> set (Shards g). ShardInfo.ID sh = sid))"
      by blast
    have sg: "sg \<in> set (items l) \<and> Contains sg (Time p)"
      by (rule ShardGroupAt_Some [OF srt Some])
    have shm: "sh \<in> set (Shards sg)" by (rule ShardFor_mem [OF sh])
    let ?dec = "Some (ShardInfo.ID sh) # dec"
    have 1: "length ?dec = length (p # ps)" using d(1) by simp
    have 2: "sm_Dropped m' = sm_Dropped m @ chosen (p # ps) ?dec None"
      using d(2) by (simp add: chosen_Cons Dropped_MapPoint)
    have 3: "\<forall>sid. pointsOf m' sid = pointsOf m sid @ chosen (p # ps) ?dec (Some sid)"
      using d(3) by (simp add: chosen_Cons pointsOf_MapPoint)
    have 4: "WriteDropped stats' = WriteDropped stats + int (length (chosen (p # ps) ?dec None))"
      using d(4) by (simp add: chosen_Cons)
    have 5: "\<forall>i < length (p # ps). \<forall>sid. ?dec ! i = Some sid \<longrightarrow>
         (\<exists>g \<in> set (items l). Contains g (Time ((p # ps) ! i)) \<and>
            (\<exists>sh \<in> set (Shards g). ShardInfo.ID sh = sid))"
    proof (intro allI impI)
      fix i sid assume i: "i < length (p # ps)" and s: "?dec ! i = Some sid"
      show "\<exists>g \<in> set (items l). Contains g (Time ((p # ps) ! i)) \<and>
            (\<exists>sh \<in> set (Shards g). ShardInfo.ID sh = sid)"
      proof (cases i)
        case 0
        with s have "sid = ShardInfo.ID sh" by simp
        with 0 sg shm show ?thesis by auto
      next
        case (Suc j)
        with i s d(5) st show ?thesis by simp
      qed
    qed
    show ?thesis using 1 2 3 4 5 by blast
  qed
qed

lemma chosen_all_None:
  "length dec = length ps \<Longrightarrow> \<forall>i < length ps. dec ! i = None \<Longrightarrow>
     chosen ps dec None = ps \<and> chosen ps dec (Some sid) = []"
proof (induction ps arbitrary: dec)
  case Nil
  then show ?case by (simp add: chosen_def)
next
  case (Cons p ps)
  from Cons.prems(1) obtain d dec' where dec: "dec = d # dec'" "length dec' = length ps"
    by (cases dec) auto
  from Cons.prems(2) dec have d: "d = None" by auto
  from Cons.prems(2) dec have "\<forall>i < length ps. dec' ! i = None" by auto
  from Cons.IH [OF dec(2) this] d dec(1) show ?case by (simp add: chosen_Cons)
qed

text \<open>
  Claim C5, as amended. Let \<open>tmin\<close> be the clock reading less the duration of the policy
  when that duration is positive, and \<open>MinNanoTime\<close> otherwise. When \<open>MapShards\<close> returns
  a mapping, there are the groups \<open>gs\<close> of the request and one decision per point such
  that: every group was returned by \<open>CreateShardGroup\<close> for a point that is not before
  \<open>tmin\<close> (a point before \<open>tmin\<close> asks for no group); \<open>Dropped\<close> holds the points decided
  \<open>None\<close>, in order, and the entry of a shard the points decided for it; the counter of
  dropped points grows by the length of \<open>Dropped\<close>; a point whose time no group of \<open>gs\<close>
  contains is dropped, and a point is mapped only to a shard of a group of \<open>gs\<close> that
  contains its time. When all points are before \<open>tmin\<close>, all are dropped and none is
  mapped.
\<close>

theorem MapShards_drops:
  fixes now :: time and MinNanoTime :: int
  assumes srt: "\<forall>gs. mset (srt gs) = mset gs"
    and rp: "mc_RetentionPolicy mc (wp_Database wp) (wp_RetentionPolicy wp) = Inr (Some rp)"
    and res: "MapShards srt MinNanoTime now mc stats wp = Inr (m, stats')"
  defines "tmin \<equiv> (if Duration rp > 0 then now + (- Duration rp) else Unix0 MinNanoTime)"
  defines "ps \<equiv> wp_Points wp"
  shows "\<exists>gs dec.
     (\<forall>g \<in> set gs. \<exists>k p. p \<in> set ps \<and> \<not> Time p < tmin \<and>
        mc_CreateShardGroup mc k (wp_Database wp) (wp_RetentionPolicy wp) (Time p) = Inr (Some g)) \<and>
     length dec = length ps \<and>
     sm_Dropped m = chosen ps dec None \<and>
     (\<forall>sid. pointsOf m sid = chosen ps dec (Some sid)) \<and>
     WriteDropped stats' = WriteDropped stats + int (length (sm_Dropped m)) \<and>
     (\<forall>i < length ps. (\<forall>g \<in> set gs. \<not> Contains g (Time (ps ! i))) \<longrightarrow> dec ! i = None) \<and>
     (\<forall>i < length ps. \<forall>sid. dec ! i = Some sid \<longrightarrow>
        (\<exists>g \<in> set gs. Contains g (Time (ps ! i)) \<and> (\<exists>sh \<in> set (Shards g). ShardInfo.ID sh = sid))) \<and>
     ((\<forall>p \<in> set ps. Time p < tmin) \<longrightarrow>
        gs = [] \<and> sm_Dropped m = ps \<and> (\<forall>sid. pointsOf m sid = []))"
proof -
  let ?db = "wp_Database wp" and ?rp = "wp_RetentionPolicy wp"
  let ?l0 = "\<lparr>items = [], needsSort = False, earliest = 0, latest = 0\<rparr>"
  let ?Q = "\<lambda>g. \<exists>k p. p \<in> set ps \<and> \<not> Time p < tmin \<and>
        mc_CreateShardGroup mc k ?db ?rp (Time p) = Inr (Some g)"
  from res rp obtain l where
    cl: "createLoop srt mc ?db ?rp tmin 0 ?l0 ps = Inr l"
    and ml: "mapLoop srt l (NewShardMapping (length ps)) stats ps = Inr (m, stats')"
    by (auto simp: MapShards_def Let_def tmin_def ps_def split: sum.splits)
  have q: "\<forall>p \<in> set ps. \<forall>k g. \<not> Time p < tmin \<and>
      mc_CreateShardGroup mc k ?db ?rp (Time p) = Inr (Some g) \<longrightarrow> ?Q g"
    by blast
  have g1: "\<forall>g \<in> set (items l). ?Q g"
    by (rule createLoop_items [OF srt q cl]) simp
  from mapLoop_decisions [OF srt ml] obtain dec where d:
    "length dec = length ps"
    "sm_Dropped m = sm_Dropped (NewShardMapping (length ps)) @ chosen ps dec None"
    "\<forall>sid. pointsOf m sid = pointsOf (NewShardMapping (length ps)) sid @ chosen ps dec (Some sid)"
    "WriteDropped stats' = WriteDropped stats + int (length (chosen ps dec None))"
    "\<forall>i < length ps. \<forall>sid. dec ! i = Some sid \<longrightarrow>
       (\<exists>g \<in> set (items l). Contains g (Time (ps ! i)) \<and>
          (\<exists>sh \<in> set (Shards g). ShardInfo.ID sh = sid))"
    by blast
  have c3: "sm_Dropped m = chosen ps dec None"
    using d(2) by (simp add: NewShardMapping_def)
  have c4: "\<forall>sid. pointsOf m sid = chosen ps dec (Some sid)"
    using d(3) by (simp add: NewShardMapping_def pointsOf_def mapGet_def)
  have c5: "WriteDropped stats' = WriteDropped stats + int (length (sm_Dropped m))"
    using d(4) c3 by simp
  have c6: "\<forall>i < length ps. (\<forall>g \<in> set (items l). \<not> Contains g (Time (ps ! i))) \<longrightarrow> dec ! i = None"
  proof (intro allI impI)
    fix i assume i: "i < length ps" and n: "\<forall>g \<in> set (items l). \<not> Contains g (Time (ps ! i))"
    show "dec ! i = None"
    proof (cases "dec ! i")
      case None
      then show ?thesis .
    next
      case (Some sid)
      with d(5) i n show ?thesis by blast
    qed
  qed
  have c8: "(\<forall>p \<in> set ps. Time p < tmin) \<longrightarrow>
        items l = [] \<and> sm_Dropped m = ps \<and> (\<forall>sid. pointsOf m sid = [])"
  proof
    assume old: "\<forall>p \<in> set ps. Time p < tmin"
    from createLoop_all_old [OF old, of srt mc ?db ?rp 0 ?l0] cl have l: "l = ?l0" by simp
    then have e: "items l = []" by simp
    with c6 have "\<forall>i < length ps. dec ! i = None" by simp
    from chosen_all_None [OF d(1) this] c3 c4 e
    show "items l = [] \<and> sm_Dropped m = ps \<and> (\<forall>sid. pointsOf m sid = [])" by simp
  qed
  show ?thesis
    apply (rule exI [of _ "items l"])
    apply (rule exI [of _ dec])
    apply (intro conjI)
    apply (rule g1 d(1) c3 c4 c5 c6 d(5) c8)+
    done
qed

theorem MapShards_drops_witness:
  "MapShards insertionSort exampleMinNanoTime 1050 (storeClient mapperData) zeroStats
       (exampleRequest [920, 930]) =
     Inr (\<lparr>sm_n = 2, sm_Points = [], sm_Shards = [],
           sm_Dropped = wp_Points (exampleRequest [920, 930])\<rparr>,
          zeroStats\<lparr>WriteDropped := 2\<rparr>) \<and>
   (\<exists>gs dec. gs = [] \<and> length dec = 2 \<and>
      wp_Points (exampleRequest [920, 930]) = chosen (wp_Points (exampleRequest [920, 930])) dec None)"
proof -
  let ?rp = "\<lparr>RetentionPolicyInfo.Name = ''rp0'', ReplicaN = 1, Duration = 100,
              ShardGroupDuration = 100, ShardGroups = [], Subscriptions = []\<rparr>"
  let ?wp = "exampleRequest [920, 930]"
  let ?m = "\<lparr>sm_n = 2, sm_Points = [], sm_Shards = [], sm_Dropped = wp_Points ?wp\<rparr>"
  have h1: "\<forall>gs. mset (insertionSort gs) = mset gs" by (simp add: mset_insertionSort)
  have h2: "mc_RetentionPolicy (storeClient mapperData) (wp_Database ?wp) (wp_RetentionPolicy ?wp)
      = Inr (Some ?rp)"
    by code_simp
  have h3: "MapShards insertionSort exampleMinNanoTime 1050 (storeClient mapperData) zeroStats ?wp =
     Inr (?m, zeroStats\<lparr>WriteDropped := 2\<rparr>)"
    by code_simp
  have old: "\<forall>p \<in> set (wp_Points ?wp). Time p < (if Duration ?rp > 0 then 1050 + (- Duration ?rp)
      else Unix0 exampleMinNanoTime)"
    by (simp add: exampleRequest_def)
  from MapShards_drops [OF h1 h2 h3] obtain gs dec where
    "length dec = length (wp_Points ?wp)" "sm_Dropped ?m = chosen (wp_Points ?wp) dec None"
    "(\<forall>p \<in> set (wp_Points ?wp). Time p < (if Duration ?rp > 0 then 1050 + (- Duration ?rp)
      else Unix0 exampleMinNanoTime)) \<longrightarrow>
        gs = [] \<and> sm_Dropped ?m = wp_Points ?wp \<and> (\<forall>sid. pointsOf ?m sid = [])"
    by blast
  with old have "gs = [] \<and> length dec = 2 \<and> wp_Points ?wp = chosen (wp_Points ?wp) dec None"
    by (simp add: exampleRequest_def)
  with h3 show ?thesis by blast
qed

text \<open>
  The claim as stated fails: with the clock at 1050 and a policy that keeps 100
  nanoseconds, a point at 920 is before \<open>tmin = 950\<close>; in a request with a point at 960,
  for which the group from 900 to 1000 is created, it is mapped to a shard of that group
  and nothing is dropped or counted.
\<close>

theorem MapShards_drops_counterexample:
  "Time \<lparr>Key = ''cpu'', Time = 920, HashID = 1\<rparr> < 1050 - 100 \<and>
   MapShards insertionSort exampleMinNanoTime 1050 (storeClient mapperData) zeroStats
       (exampleRequest [960, 920]) =
     Inr (\<lparr>sm_n = 2,
           sm_Points = [(5, [\<lparr>Key = ''cpu'', Time = 960, HashID = 1\<rparr>,
                             \<lparr>Key = ''cpu'', Time = 920, HashID = 1\<rparr>])],
           sm_Shards = [(5, \<lparr>ShardInfo.ID = 5, Owners = [\<lparr>NodeID = 1\<rparr>]\<rparr>)],
           sm_Dropped = []\<rparr>, zeroStats)"
  by code_simp


section \<open>Properties of the points writer\<close>

lemma successes_Cons:
  "successes (r # rs) = (if awr_Err r = None then Suc (successes rs) else successes rs)"
  by (simp add: successes_def)

lemma savedError_Cons:
  "savedError ext (r # rs) =
     (case awr_Err r of
        None \<Rightarrow> savedError ext rs
      | Some e \<Rightarrow> if Error ext e \<noteq> Error ext ErrQueueBlocked then Some e else savedError ext rs)"
  by (simp add: savedError_def List.map_filter_simps split: option.splits)

lemma collect_results:
  "length rs = k \<Longrightarrow>
   fst (collect ext required k (map Result rs) wrote writeError st) =
     (if successes rs > 0 \<and> wrote + int (successes rs) \<ge> required then None
      else if wrote + int (successes rs) > 0 then Some ErrPartialWrite
      else case (if writeError \<noteq> None then writeError else savedError ext rs) of
             Some e \<Rightarrow> Some (ErrorsNew (''write failed: '' @ Error ext e))
           | None \<Rightarrow> Some ErrWriteFailed)"
proof (induction rs arbitrary: k wrote writeError st)
  case Nil
  then show ?case by (simp add: successes_def savedError_def List.map_filter_simps split: option.splits)
next
  case (Cons r rs)
  then obtain k' where k: "k = Suc k'" "length rs = k'" by (cases k) auto
  show ?case
  proof (cases "awr_Err r")
    case None
    show ?thesis
    proof (cases "wrote + 1 \<ge> required")
      case True
      then show ?thesis using None k by (simp add: successes_Cons)
    next
      case False
      have "fst (collect ext required k (map Result (r # rs)) wrote writeError st) =
            fst (collect ext required k' (map Result rs) (wrote + 1) writeError st)"
        using None k False by simp
      also have "\<dots> = (if successes rs > 0 \<and> wrote + 1 + int (successes rs) \<ge> required then None
      else if wrote + 1 + int (successes rs) > 0 then Some ErrPartialWrite
      else case (if writeError \<noteq> None then writeError else savedError ext rs) of
             Some e \<Rightarrow> Some (ErrorsNew (''write failed: '' @ Error ext e))
           | None \<Rightarrow> Some ErrWriteFailed)"
        by (rule Cons.IH [OF k(2)])
      finally show ?thesis using None False
        by (simp add: successes_Cons savedError_Cons add.assoc)
    qed
  next
    case (Some e)
    let ?st = "st\<lparr>WriteErr := WriteErr st + 1\<rparr>"
    show ?thesis
    proof (cases "Error ext e = Error ext ErrQueueBlocked")
      case True
      have "fst (collect ext required k (map Result (r # rs)) wrote writeError st) =
            fst (collect ext required k' (map Result rs) wrote writeError ?st)"
        using Some k True by (simp add: Let_def)
      also have "\<dots> = (if successes rs > 0 \<and> wrote + int (successes rs) \<ge> required then None
      else if wrote + int (successes rs) > 0 then Some ErrPartialWrite
      else case (if writeError \<noteq> None then writeError else savedError ext rs) of
             Some e \<Rightarrow> Some (ErrorsNew (''write failed: '' @ Error ext e))
           | None \<Rightarrow> Some ErrWriteFailed)"
        by (rule Cons.IH [OF k(2)])
      finally show ?thesis using Some True by (simp add: successes_Cons savedError_Cons)
    next
      case False
      let ?we = "if writeError = None then Some e else writeError"
      have "fst (collect ext required k (map Result (r # rs)) wrote writeError st) =
            fst (collect ext required k' (map Result rs) wrote ?we ?st)"
        using Some k False by (simp add: Let_def)
      also have "\<dots> = (if successes rs > 0 \<and> wrote + int (successes rs) \<ge> required then None
      else if wrote + int (successes rs) > 0 then Some ErrPartialWrite
      else case (if ?we \<noteq> None then ?we else savedError ext rs) of
             Some e \<Rightarrow> Some (ErrorsNew (''write failed: '' @ Error ext e))
           | None \<Rightarrow> Some ErrWriteFailed)"
        by (rule Cons.IH [OF k(2)])
      finally show ?thesis using Some False by (simp add: successes_Cons savedError_Cons)
    qed
  qed
qed

lemma collect_as_soon_as:
  "length pre < k \<Longrightarrow> awr_Err r = None \<Longrightarrow> wrote + int (successes pre) + 1 \<ge> required \<Longrightarrow>
   fst (collect ext required k (map Result pre @ Result r # rest) wrote writeError st) = None"
proof (induction pre arbitrary: k wrote writeError st)
  case Nil
  then obtain k' where "k = Suc k'" by (cases k) auto
  with Nil show ?case by (simp add: successes_def)
next
  case (Cons p pre)
  then obtain k' where k: "k = Suc k'" "length pre < k'" by (cases k) auto
  show ?case
  proof (cases "awr_Err p")
    case None
    show ?thesis
    proof (cases "wrote + 1 \<ge> required")
      case True
      then show ?thesis using None k by simp
    next
      case False
      have "wrote + 1 + int (successes pre) + 1 \<ge> required"
        using Cons.prems(3) None by (simp add: successes_Cons)
      from Cons.IH [OF k(2) Cons.prems(2) this] None False k show ?thesis by simp
    qed
  next
    case (Some e)
    have "wrote + int (successes pre) + 1 \<ge> required"
      using Cons.prems(3) Some by (simp add: successes_Cons)
    from Cons.IH [OF k(2) Cons.prems(2) this] Some k show ?thesis by (simp add: Let_def)
  qed
qed

lemma length_ownerWrites:
  "length (fst (ownerWrites w db rp c sid pts st owners)) = length owners"
  by (induction owners arbitrary: st) (simp_all add: Let_def case_prod_beta)

text \<open>
  Claim C2. The number of acknowledgments asked of the owners of a shard is 1 for the
  levels any and one, half the number of owners (rounded down) plus one for quorum, and
  the number of owners for all. \<open>writeToShardWithContext\<close> returns \<open>nil\<close> at the success
  that brings the number of successes to that number, whatever follows. When the loop
  has received the results of all the owners (in any order, with neither the closing
  signal nor the timer before), the result is \<open>nil\<close> if the successes reach the required
  number, \<open>ErrPartialWrite\<close> if there are successes but fewer, and without a success the
  first saved error wrapped as "write failed: ...", or \<open>ErrWriteFailed\<close> when none was
  saved.
\<close>

theorem writeToShard_consistency:
  fixes w :: PointsWriter and shard :: ShardInfo and consistency :: ConsistencyLevel
    and database retentionPolicy :: string and points :: "Point list" and st :: WriteStatistics
  defines "n \<equiv> int (length (Owners shard))"
  defines "required \<equiv> requiredWrites consistency n"
  defines "results \<equiv> fst (ownerWrites w database retentionPolicy consistency (ShardInfo.ID shard)
                            points st (Owners shard))"
  shows
   "(consistency = ConsistencyLevelAny \<or> consistency = ConsistencyLevelOne \<longrightarrow> required = 1) \<and>
    (consistency = ConsistencyLevelQuorum \<longrightarrow> required = n div 2 + 1) \<and>
    (consistency = ConsistencyLevelAll \<longrightarrow> required = n) \<and>
    (\<forall>pre r rest.
       sched results = map Result pre @ Result r # rest \<and> length pre < length (Owners shard) \<and>
       awr_Err r = None \<and> int (successes pre) + 1 \<ge> required \<longrightarrow>
       fst (writeToShardWithContext w sched st shard database retentionPolicy consistency points) = None) \<and>
    (\<forall>arrival.
       sched results = map Result arrival \<and> mset arrival = mset results \<longrightarrow>
       fst (writeToShardWithContext w sched st shard database retentionPolicy consistency points) =
         (if successes results > 0 \<and> int (successes results) \<ge> required then None
          else if successes results > 0 then Some ErrPartialWrite
          else case savedError (ext_Error w) arrival of
                 Some e \<Rightarrow> Some (ErrorsNew (''write failed: '' @ Error (ext_Error w) e))
               | None \<Rightarrow> Some ErrWriteFailed))"
proof -
  have res: "fst (writeToShardWithContext w sched st shard database retentionPolicy consistency points) =
      fst (collect (ext_Error w) required (length (Owners shard)) (sched results) 0 None
             (snd (ownerWrites w database retentionPolicy consistency (ShardInfo.ID shard)
                            points st (Owners shard))))"
    by (simp add: writeToShardWithContext_def Let_def case_prod_beta required_def n_def results_def)
  have lr: "length results = length (Owners shard)"
    by (simp add: results_def length_ownerWrites)
  have a: "consistency = ConsistencyLevelAny \<or> consistency = ConsistencyLevelOne \<longrightarrow> required = 1"
    by (auto simp: required_def requiredWrites_def)
  have b: "consistency = ConsistencyLevelQuorum \<longrightarrow> required = n div 2 + 1"
    by (auto simp: required_def requiredWrites_def)
  have c: "consistency = ConsistencyLevelAll \<longrightarrow> required = n"
    by (auto simp: required_def requiredWrites_def)
  have d: "\<forall>pre r rest.
       sched results = map Result pre @ Result r # rest \<and> length pre < length (Owners shard) \<and>
       awr_Err r = None \<and> int (successes pre) + 1 \<ge> required \<longrightarrow>
       fst (writeToShardWithContext w sched st shard database retentionPolicy consistency points) = None"
  proof (intro allI impI, elim conjE)
    fix pre r rest
    assume s: "sched results = map Result pre @ Result r # rest"
      and l: "length pre < length (Owners shard)" and r: "awr_Err r = None"
      and q: "int (successes pre) + 1 \<ge> required"
    from q have "0 + int (successes pre) + 1 \<ge> required" by simp
    from collect_as_soon_as [OF l r this]
    show "fst (writeToShardWithContext w sched st shard database retentionPolicy consistency points) = None"
      unfolding res s .
  qed
  have e: "\<forall>arrival.
       sched results = map Result arrival \<and> mset arrival = mset results \<longrightarrow>
       fst (writeToShardWithContext w sched st shard database retentionPolicy consistency points) =
         (if successes results > 0 \<and> int (successes results) \<ge> required then None
          else if successes results > 0 then Some ErrPartialWrite
          else case savedError (ext_Error w) arrival of
                 Some e \<Rightarrow> Some (ErrorsNew (''write failed: '' @ Error (ext_Error w) e))
               | None \<Rightarrow> Some ErrWriteFailed)"
  proof (intro allI impI, elim conjE)
    fix arrival
    assume s: "sched results = map Result arrival" and m: "mset arrival = mset results"
    from m have la: "length arrival = length (Owners shard)"
      using lr by (metis size_mset)
    have sc: "successes arrival = successes results"
      unfolding successes_def using m by (rule length_filter_mset_eq)
    show "fst (writeToShardWithContext w sched st shard database retentionPolicy consistency points) =
         (if successes results > 0 \<and> int (successes results) \<ge> required then None
          else if successes results > 0 then Some ErrPartialWrite
          else case savedError (ext_Error w) arrival of
                 Some e \<Rightarrow> Some (ErrorsNew (''write failed: '' @ Error (ext_Error w) e))
               | None \<Rightarrow> Some ErrWriteFailed)"
      unfolding res s collect_results [OF la] sc by simp
  qed
  show ?thesis by (intro conjI) (rule a b c d e)+
qed

theorem writeToShard_consistency_witness:
  "fst (writeToShardWithContext (exampleWriter refuse2 [] []) (map Result) zeroStats
          (exampleShard [1, 2, 3]) ''db0'' ''rp0'' ConsistencyLevelQuorum examplePoints) = None \<and>
   requiredWrites ConsistencyLevelQuorum (int (length (Owners (exampleShard [1, 2, 3])))) = 2 \<and>
   fst (writeToShardWithContext (exampleWriter refuse2 [] []) (map Result) zeroStats
          (exampleShard [1, 2, 3]) ''db0'' ''rp0'' ConsistencyLevelAll examplePoints)
     = Some ErrPartialWrite \<and>
   fst (writeToShardWithContext (exampleWriter refuse2 [] []) (map Result) zeroStats
          (exampleShard [2]) ''db0'' ''rp0'' ConsistencyLevelOne examplePoints)
     = Some (ErrorsNew ''write failed: connection refused'')"
proof -
  let ?w = "exampleWriter refuse2 [] []"
  let ?rs = "\<lambda>c ns. fst (ownerWrites ?w ''db0'' ''rp0'' c (ShardInfo.ID (exampleShard ns))
                     examplePoints zeroStats (Owners (exampleShard ns)))"
  have s1: "successes (?rs ConsistencyLevelQuorum [1, 2, 3]) = 2" by code_simp
  have s2: "successes (?rs ConsistencyLevelAll [1, 2, 3]) = 2" by code_simp
  have s3: "successes (?rs ConsistencyLevelOne [2]) = 0" by code_simp
  have e3: "savedError (ext_Error ?w) (?rs ConsistencyLevelOne [2]) = Some (External ''connection refused'')"
    by code_simp
  have n: "int (length (Owners (exampleShard [1, 2, 3]))) = 3" "int (length (Owners (exampleShard [2]))) = 1"
    by (simp_all add: exampleShard_def)
  from writeToShard_consistency [of ConsistencyLevelQuorum "exampleShard [1, 2, 3]" "map Result" ?w
      "''db0''" "''rp0''" examplePoints zeroStats]
  have q: "requiredWrites ConsistencyLevelQuorum (int (length (Owners (exampleShard [1, 2, 3])))) = 2"
    and r1: "fst (writeToShardWithContext ?w (map Result) zeroStats
          (exampleShard [1, 2, 3]) ''db0'' ''rp0'' ConsistencyLevelQuorum examplePoints) = None"
    using s1 n by auto
  from writeToShard_consistency [of ConsistencyLevelAll "exampleShard [1, 2, 3]" "map Result" ?w
      "''db0''" "''rp0''" examplePoints zeroStats]
  have r2: "fst (writeToShardWithContext ?w (map Result) zeroStats
          (exampleShard [1, 2, 3]) ''db0'' ''rp0'' ConsistencyLevelAll examplePoints) = Some ErrPartialWrite"
    using s2 n by auto
  from writeToShard_consistency [of ConsistencyLevelOne "exampleShard [2]" "map Result" ?w
      "''db0''" "''rp0''" examplePoints zeroStats]
  have r3: "fst (writeToShardWithContext ?w (map Result) zeroStats
          (exampleShard [2]) ''db0'' ''rp0'' ConsistencyLevelOne examplePoints)
     = Some (ErrorsNew ''write failed: connection refused'')"
    using s3 e3 n by (auto simp: Error_def)
  show ?thesis using q r1 r2 r3 by blast
qed

text \<open>
  Claim C7, as amended. For an owner on another node, with writes in order and a hinted
  handoff queue that is not empty for the shard and the owner, the goroutine does not
  call the shard writer (its answer does not matter), counts the points as handed off
  and enqueues them; its result carries the error of the enqueue, or the sentinel
  \<open>ErrHintedHandoffQueueNotEmpty\<close> when the enqueue succeeds. In the loop that result
  counts as an error, leaves the number of successes as it is and lets the loop go on;
  it is saved as the first error when none is saved yet, unless its message is that
  of \<open>ErrQueueBlocked\<close>: only an error with that message is skipped without being saved.
\<close>

theorem handoff_bypass:
  fixes w :: PointsWriter and owner :: ShardOwner and st :: WriteStatistics
  assumes remote: "mc_NodeID (pw_MetaClient w) \<noteq> NodeID owner"
    and ordered: "\<not> AllowOutOfOrderWrites w"
    and pending: "\<not> hh_Empty w shardID (NodeID owner)"
  shows
   "ownerWrite w database retentionPolicy consistency shardID points st owner =
      (\<lparr>awr_Owner = owner,
        awr_Err = (case hh_WriteShard w shardID (NodeID owner) points of
                     Some hherr \<Rightarrow> Some hherr
                   | None \<Rightarrow> Some ErrHintedHandoffQueueNotEmpty)\<rparr>,
       st\<lparr>PointWriteReqHH := PointWriteReqHH st + int (length points)\<rparr>) \<and>
    (\<forall>f. ownerWrite (w\<lparr>sw_WriteShard := f\<rparr>) database retentionPolicy consistency shardID points st owner =
         ownerWrite w database retentionPolicy consistency shardID points st owner) \<and>
    (\<forall>ext required k evs wrote writeError st'.
       collect ext required (Suc k)
           (Result \<lparr>awr_Owner = owner, awr_Err = Some ErrHintedHandoffQueueNotEmpty\<rparr> # evs)
           wrote writeError st' =
         collect ext required k evs wrote
           (if Error ext ErrHintedHandoffQueueNotEmpty = Error ext ErrQueueBlocked \<or> writeError \<noteq> None
            then writeError else Some ErrHintedHandoffQueueNotEmpty)
           (st'\<lparr>WriteErr := WriteErr st' + 1\<rparr>)) \<and>
    (\<forall>ext required k evs wrote writeError st' e.
       Error ext e = Error ext ErrQueueBlocked \<longrightarrow>
       collect ext required (Suc k) (Result \<lparr>awr_Owner = owner, awr_Err = Some e\<rparr> # evs)
           wrote writeError st' =
         collect ext required k evs wrote writeError (st'\<lparr>WriteErr := WriteErr st' + 1\<rparr>))"
proof -
  have a: "ownerWrite w database retentionPolicy consistency shardID points st owner =
      (\<lparr>awr_Owner = owner,
        awr_Err = (case hh_WriteShard w shardID (NodeID owner) points of
                     Some hherr \<Rightarrow> Some hherr
                   | None \<Rightarrow> Some ErrHintedHandoffQueueNotEmpty)\<rparr>,
       st\<lparr>PointWriteReqHH := PointWriteReqHH st + int (length points)\<rparr>)"
    using remote ordered pending by (simp add: ownerWrite_def Let_def split: option.splits)
  have b: "\<forall>f. ownerWrite (w\<lparr>sw_WriteShard := f\<rparr>) database retentionPolicy consistency shardID points st owner =
         ownerWrite w database retentionPolicy consistency shardID points st owner"
    using remote ordered pending by (simp add: ownerWrite_def Let_def split: option.splits)
  have c: "\<forall>ext required k evs wrote writeError st'.
       collect ext required (Suc k)
           (Result \<lparr>awr_Owner = owner, awr_Err = Some ErrHintedHandoffQueueNotEmpty\<rparr> # evs)
           wrote writeError st' =
         collect ext required k evs wrote
           (if Error ext ErrHintedHandoffQueueNotEmpty = Error ext ErrQueueBlocked \<or> writeError \<noteq> None
            then writeError else Some ErrHintedHandoffQueueNotEmpty)
           (st'\<lparr>WriteErr := WriteErr st' + 1\<rparr>)"
    by (simp add: Let_def)
  have d: "\<forall>ext required k evs wrote writeError st' e.
       Error ext e = Error ext ErrQueueBlocked \<longrightarrow>
       collect ext required (Suc k) (Result \<lparr>awr_Owner = owner, awr_Err = Some e\<rparr> # evs)
           wrote writeError st' =
         collect ext required k evs wrote writeError (st'\<lparr>WriteErr := WriteErr st' + 1\<rparr>)"
    by (simp add: Let_def)
  show ?thesis by (intro conjI) (rule a b c d)+
qed

theorem handoff_bypass_witness:
  "ownerWrite (exampleWriter refuse2 [2] []) ''db0'' ''rp0'' ConsistencyLevelOne 5 examplePoints
       zeroStats \<lparr>NodeID = 2\<rparr> =
     (\<lparr>awr_Owner = \<lparr>NodeID = 2\<rparr>, awr_Err = Some ErrHintedHandoffQueueNotEmpty\<rparr>,
      zeroStats\<lparr>PointWriteReqHH := 1\<rparr>) \<and>
   fst (writeToShardWithContext (exampleWriter refuse2 [2] []) (map Result) zeroStats
          (exampleShard [2, 1]) ''db0'' ''rp0'' ConsistencyLevelOne examplePoints) = None"
proof -
  let ?w = "exampleWriter refuse2 [2] []"
  have h1: "mc_NodeID (pw_MetaClient ?w) \<noteq> NodeID \<lparr>NodeID = 2\<rparr>"
    by (simp add: exampleWriter_def storeClient_def)
  have h2: "\<not> AllowOutOfOrderWrites ?w" by (simp add: exampleWriter_def)
  have h3: "\<not> hh_Empty ?w 5 (NodeID \<lparr>NodeID = 2\<rparr>)" by (simp add: exampleWriter_def)
  have e: "hh_WriteShard ?w 5 (NodeID \<lparr>NodeID = 2\<rparr>) examplePoints = None"
    by (simp add: exampleWriter_def)
  have l: "int (length examplePoints) = 1" by (simp add: examplePoints_def)
  have r: "fst (writeToShardWithContext ?w (map Result) zeroStats
          (exampleShard [2, 1]) ''db0'' ''rp0'' ConsistencyLevelOne examplePoints) = None"
    by code_simp
  from handoff_bypass [OF h1 h2 h3, of "''db0''" "''rp0''" ConsistencyLevelOne examplePoints zeroStats] e l r
  show ?thesis by (simp add: zeroStats_def)
qed

text \<open>
  The sentinel is saved: with the owner on node 2 as the only owner and the queue for
  it not empty, the shard write returns the sentinel wrapped as "write failed: ...",
  not \<open>ErrWriteFailed\<close> as it would with no error saved.
\<close>

theorem handoff_sentinel_saved_counterexample:
  "mc_NodeID (pw_MetaClient (exampleWriter refuse2 [2] [])) \<noteq> 2 \<and>
   \<not> AllowOutOfOrderWrites (exampleWriter refuse2 [2] []) \<and>
   \<not> hh_Empty (exampleWriter refuse2 [2] []) 5 2 \<and>
   hh_WriteShard (exampleWriter refuse2 [2] []) 5 2 examplePoints = None \<and>
   fst (writeToShardWithContext (exampleWriter refuse2 [2] []) (map Result) zeroStats
          (exampleShard [2]) ''db0'' ''rp0'' ConsistencyLevelOne examplePoints)
     = Some (ErrorsNew (''write failed: '' @ Error exampleMessages ErrHintedHandoffQueueNotEmpty)) \<and>
   fst (writeToShardWithContext (exampleWriter refuse2 [2] []) (map Result) zeroStats
          (exampleShard [2]) ''db0'' ''rp0'' ConsistencyLevelOne examplePoints)
     \<noteq> Some ErrWriteFailed"
  by code_simp





















end
